theory Spec2Isabelle
  imports Main
begin

section \<open>Strings\<close>

text \<open>
  A JavaScript string is a sequence of code units. It is modelled as a \<^typ>\<open>string\<close>,
  one \<^typ>\<open>char\<close> per code unit, over the code units \<open>0x00\<close> to \<open>0xFF\<close>;
  \<open>length\<close> is the source's \<^verbatim>\<open>.length\<close>.
\<close>

text \<open>The white space that \<^verbatim>\<open>String.prototype.trim\<close> removes, among these code units:
  TAB, LF, VT, FF, CR, SP and NBSP.\<close>

definition isWhiteSpace :: "char \<Rightarrow> bool" where
  "isWhiteSpace c =
     (c = CHR 0x09 \<or> c = CHR 0x0A \<or> c = CHR 0x0B \<or> c = CHR 0x0C \<or> c = CHR 0x0D
      \<or> c = CHR 0x20 \<or> c = CHR 0xA0)"

definition trim :: "string \<Rightarrow> string" where
  "trim s = rev (dropWhile isWhiteSpace (rev (dropWhile isWhiteSpace s)))"

definition startsWith :: "string \<Rightarrow> string \<Rightarrow> bool" where
  "startsWith s p = (take (length p) s = p)"

text \<open>\<^verbatim>\<open>s.replace(/\/$/, '')\<close>: the pattern has no flag, so \<^verbatim>\<open>$\<close> is the end of the
  input and at most one slash, the last code unit, is removed.\<close>

definition stripTrailingSlash :: "string \<Rightarrow> string" where
  "stripTrailingSlash s = (if s \<noteq> [] \<and> last s = CHR ''/'' then butlast s else s)"

text \<open>
  \<^verbatim>\<open>xs.slice(begin, end)\<close>, of strings and of arrays alike: a negative index counts from
  the end, and both indices are clamped to the range of \<open>xs\<close>. \<^verbatim>\<open>xs.slice(begin)\<close> runs to
  the end.
\<close>

definition relativeIndex :: "nat \<Rightarrow> int \<Rightarrow> nat" where
  "relativeIndex len i = (if i < 0 then nat (max (int len + i) 0) else min (nat i) len)"

definition slice :: "int \<Rightarrow> int \<Rightarrow> 'a list \<Rightarrow> 'a list" where
  "slice begin end xs =
     (let k = relativeIndex (length xs) begin;
          final = relativeIndex (length xs) end
      in take (final - k) (drop k xs))"

definition sliceFrom :: "int \<Rightarrow> 'a list \<Rightarrow> 'a list" where
  "sliceFrom begin xs = drop (relativeIndex (length xs) begin) xs"

section \<open>Thrown values\<close>

text \<open>
  What a rejected promise or a \<^verbatim>\<open>throw\<close> carries. \<open>Error\<close>, \<open>TypeError\<close>,
  \<open>SyntaxError\<close> and \<open>DOMException\<close> are instances of \<^verbatim>\<open>Error\<close> and have a message;
  the \<open>ProgressEvent\<close> that a failing \<^verbatim>\<open>FileReader\<close> hands to \<^verbatim>\<open>reject\<close> is not.
\<close>

datatype thrown =
    Error string
  | TypeError string
  | SyntaxError string
  | DOMException string
  | ProgressEvent

fun instanceofError :: "thrown \<Rightarrow> bool" where
  "instanceofError ProgressEvent = False"
| "instanceofError _ = True"

fun error_message :: "thrown \<Rightarrow> string" where
  "error_message (Error m) = m"
| "error_message (TypeError m) = m"
| "error_message (SyntaxError m) = m"
| "error_message (DOMException m) = m"
| "error_message ProgressEvent = []"

text \<open>A sequence of steps that stops at the first one that throws: \<^verbatim>\<open>xs.map(f)\<close> with a
  throwing callback, and \<^verbatim>\<open>Promise.all(xs.map(f))\<close> with a rejecting one.\<close>

fun mapThrowing :: "('a \<Rightarrow> thrown + 'b) \<Rightarrow> 'a list \<Rightarrow> thrown + 'b list" where
  "mapThrowing f [] = Inr []"
| "mapThrowing f (x # xs) =
     (case f x of
        Inl e \<Rightarrow> Inl e
      | Inr y \<Rightarrow> (case mapThrowing f xs of Inl e \<Rightarrow> Inl e | Inr ys \<Rightarrow> Inr (y # ys)))"

section \<open>JavaScript values\<close>

text \<open>
  The value that \<^verbatim>\<open>response.json()\<close> resolves to, and \<^verbatim>\<open>undefined\<close>, which reading an
  absent property gives. A number matters to the code only through being zero or not; an
  object is the list of its own properties, each name once.
\<close>

datatype jsval =
    JUndefined
  | JNull
  | JBool bool
  | JNum int
  | JStr string
  | JArr "jsval list"
  | JObj "(string \<times> jsval) list"

fun truthy :: "jsval \<Rightarrow> bool" where
  "truthy JUndefined = False"
| "truthy JNull = False"
| "truthy (JBool b) = b"
| "truthy (JNum n) = (n \<noteq> 0)"
| "truthy (JStr s) = (s \<noteq> [])"
| "truthy (JArr xs) = True"
| "truthy (JObj kvs) = True"

fun nullish :: "jsval \<Rightarrow> bool" where
  "nullish JUndefined = True"
| "nullish JNull = True"
| "nullish _ = False"

fun isArray :: "jsval \<Rightarrow> bool" where
  "isArray (JArr xs) = True"
| "isArray _ = False"

text \<open>
  \<open>propOf v k\<close> is \<^verbatim>\<open>v[k]\<close> for a \<open>v\<close> that is neither \<^verbatim>\<open>null\<close> nor \<^verbatim>\<open>undefined\<close>, and
  for the property names that the code reads: \<^verbatim>\<open>choices\<close>, \<^verbatim>\<open>0\<close>, \<^verbatim>\<open>message\<close>,
  \<^verbatim>\<open>content\<close>, \<^verbatim>\<open>data\<close>, \<^verbatim>\<open>models\<close>, \<^verbatim>\<open>id\<close>, \<^verbatim>\<open>name\<close>, \<^verbatim>\<open>model\<close>. None of them is
  inherited from a prototype, so an object gives its own property, an array or a string
  its first element under \<^verbatim>\<open>0\<close>, and everything else \<^verbatim>\<open>undefined\<close>.
\<close>

fun propOf :: "jsval \<Rightarrow> string \<Rightarrow> jsval" where
  "propOf (JObj kvs) k = (case map_of kvs k of Some v \<Rightarrow> v | None \<Rightarrow> JUndefined)"
| "propOf (JArr xs) k = (if k = ''0'' then (case xs of [] \<Rightarrow> JUndefined | x # _ \<Rightarrow> x) else JUndefined)"
| "propOf (JStr s) k = (if k = ''0'' then (case s of [] \<Rightarrow> JUndefined | c # _ \<Rightarrow> JStr [c]) else JUndefined)"
| "propOf _ k = JUndefined"

text \<open>\<^verbatim>\<open>v.k\<close>: reading a property of \<^verbatim>\<open>null\<close> or \<^verbatim>\<open>undefined\<close> throws a \<^verbatim>\<open>TypeError\<close>
  (the wording of its message is the engine's; this is V8's).\<close>

definition getProp :: "jsval \<Rightarrow> string \<Rightarrow> thrown + jsval" where
  "getProp v k =
     (if nullish v
      then Inl (TypeError (''Cannot read properties of ''
                  @ (if v = JNull then ''null'' else ''undefined'')
                  @ '' (reading '' @ [CHR 0x27] @ k @ [CHR 0x27] @ '')''))
      else Inr (propOf v k))"

text \<open>\<^verbatim>\<open>v?.k\<close>.\<close>

definition optProp :: "jsval \<Rightarrow> string \<Rightarrow> jsval" where
  "optProp v k = (if nullish v then JUndefined else propOf v k)"

text \<open>\<^verbatim>\<open>a || b\<close>.\<close>

definition orElse :: "jsval \<Rightarrow> jsval \<Rightarrow> jsval" where
  "orElse a b = (if truthy a then a else b)"

section \<open>The Gateway: \<^verbatim>\<open>APIService\<close>\<close>

text \<open>\<^verbatim>\<open>normalizeHostname\<close>.\<close>

definition normalizeHostname :: "string \<Rightarrow> string" where
  "normalizeHostname hostname =
     (let normalized = trim hostname;
          normalized =
            (if \<not> startsWith normalized ''http://'' \<and> \<not> startsWith normalized ''https://''
             then ''https://'' @ normalized
             else normalized)
      in stripTrailingSlash normalized)"

record api_config =
  hostname :: string
  apiKey :: "string option"

text \<open>\<^verbatim>\<open>APIConfig & { model: string }\<close>.\<close>

record model_config = api_config +
  model :: string

datatype role = User | Assistant | System

record chatMessage =
  cm_role :: role
  cm_content :: string

record chatRequest =
  req_model :: string
  req_messages :: "chatMessage list"
  req_stream :: "bool option"

text \<open>\<^verbatim>\<open>Model\<close>; at run time its fields hold whatever the response held.\<close>

record model_entry =
  model_id :: jsval
  model_name :: jsval

text \<open>What \<^verbatim>\<open>fetch\<close> is called with, the body before \<^verbatim>\<open>JSON.stringify\<close>, and the response
  it resolves to: \<open>body_text\<close> and \<open>body_json\<close> are the outcomes of \<^verbatim>\<open>response.text()\<close> and of
  \<^verbatim>\<open>response.json()\<close>.\<close>

record httpRequest =
  url :: string
  http_method :: string
  headers :: "(string \<times> string) list"
  body :: "chatRequest option"

record response =
  ok :: bool
  statusText :: string
  body_text :: "thrown + string"
  body_json :: "thrown + jsval"

text \<open>\<^verbatim>\<open>getHeaders\<close>: an absent or empty key is falsy.\<close>

definition getHeaders :: "string option \<Rightarrow> (string \<times> string) list" where
  "getHeaders key =
     (let headers = [(''Content-Type'', ''application/json'')]
      in case key of
           None \<Rightarrow> headers
         | Some k \<Rightarrow> if k \<noteq> [] then headers @ [(''Authorization'', k)] else headers)"

text \<open>\<^verbatim>\<open>fetchModels\<close>. The callbacks of \<^verbatim>\<open>map\<close> read \<^verbatim>\<open>model.id\<close> first, which throws on
  an element that is \<^verbatim>\<open>null\<close>.\<close>

definition modelOfData :: "jsval \<Rightarrow> thrown + model_entry" where
  "modelOfData m =
     (case getProp m ''id'' of
        Inl e \<Rightarrow> Inl e
      | Inr i \<Rightarrow> Inr \<lparr>model_id = i, model_name = orElse (propOf m ''name'') (propOf m ''id'')\<rparr>)"

definition modelOfModels :: "jsval \<Rightarrow> thrown + model_entry" where
  "modelOfModels m =
     (case getProp m ''model'' of
        Inl e \<Rightarrow> Inl e
      | Inr i \<Rightarrow> Inr \<lparr>model_id = orElse i (propOf m ''name''), model_name = propOf m ''name''\<rparr>)"

definition fetchModels ::
  "(httpRequest \<Rightarrow> thrown + response) \<Rightarrow> 'a api_config_scheme \<Rightarrow> thrown + model_entry list" where
  "fetchModels fetch config =
     (let baseUrl = normalizeHostname (hostname config);
          url = baseUrl @ ''/v1/models''
      in case fetch \<lparr>url = url, http_method = ''GET'', headers = getHeaders (apiKey config),
                     body = None\<rparr> of
           Inl e \<Rightarrow> Inl e
         | Inr response \<Rightarrow>
             if \<not> ok response
             then Inl (Error (''Failed to fetch models: '' @ statusText response))
             else (case body_json response of
                Inl e \<Rightarrow> Inl e
              | Inr data \<Rightarrow>
                 (case getProp data ''data'' of
                    Inl e \<Rightarrow> Inl e
                  | Inr d \<Rightarrow>
                     if truthy d \<and> isArray d
                     then (case d of JArr ms \<Rightarrow> mapThrowing modelOfData ms | _ \<Rightarrow> Inr [])
                     else let d = propOf data ''models''
                          in if truthy d \<and> isArray d
                             then (case d of JArr ms \<Rightarrow> mapThrowing modelOfModels ms | _ \<Rightarrow> Inr [])
                             else Inr [])))"

text \<open>\<^verbatim>\<open>sendChatMessage\<close>. The guard \<^verbatim>\<open>data.choices && data.choices[0]?.message?.content\<close>
  has found the content that the \<^verbatim>\<open>return\<close> reads again.\<close>

definition sendChatMessage ::
  "(httpRequest \<Rightarrow> thrown + response) \<Rightarrow> 'a api_config_scheme \<Rightarrow> chatRequest \<Rightarrow> thrown + jsval" where
  "sendChatMessage fetch config request =
     (let baseUrl = normalizeHostname (hostname config);
          url = baseUrl @ ''/v1/chat/completions''
      in case fetch \<lparr>url = url, http_method = ''POST'', headers = getHeaders (apiKey config),
                     body = Some (request\<lparr>req_stream := Some False\<rparr>)\<rparr> of
           Inl e \<Rightarrow> Inl e
         | Inr response \<Rightarrow>
             if \<not> ok response
             then (case body_text response of
                Inl e \<Rightarrow> Inl e
              | Inr errorText \<Rightarrow>
                 Inl (Error (''API request failed: '' @ statusText response @ '' - '' @ errorText)))
             else (case body_json response of
                Inl e \<Rightarrow> Inl e
              | Inr data \<Rightarrow>
                 (case getProp data ''choices'' of
                    Inl e \<Rightarrow> Inl e
                  | Inr choices \<Rightarrow>
                     let c = optProp (optProp (propOf choices ''0'') ''message'') ''content''
                     in if truthy choices \<and> truthy c then Inr c
                        else let c = optProp (propOf data ''message'') ''content''
                             in if truthy c then Inr c
                                else Inl (Error ''Unexpected response format''))))"

section \<open>The data model\<close>

record attachment =
  att_name :: string
  att_type :: string
  att_data :: string

record message =
  msg_role :: role
  msg_content :: string
  msg_timestamp :: nat
  msg_attachments :: "attachment list option"

record conversation =
  conv_id :: string
  conv_title :: string
  conv_messages :: "message list"
  conv_createdAt :: nat
  conv_updatedAt :: nat
  conv_apiConfig :: model_config

text \<open>A \<^verbatim>\<open>File\<close> of the browser: its name, its MIME type, and what the two readers of
  \<^verbatim>\<open>APIService\<close> resolve to on it (\<open>None\<close> when the \<^verbatim>\<open>FileReader\<close> fails).\<close>

record js_file =
  file_name :: string
  file_type :: string
  file_text :: "string option"
  file_base64 :: "string option"

section \<open>The world outside the component\<close>

datatype store_op = Put conversation | Delete string

text \<open>
  The effects of the component, as explicit state:
  \<^item> \<open>db\<close> is the object store of \<^verbatim>\<open>DatabaseService\<close>, keyed by \<^verbatim>\<open>id\<close>;
    \<open>store_faults\<close> holds the outcome of the store operations to come, in order
    (\<open>Some m\<close>: the request, or the opening of the database before it, fails with a
    \<^verbatim>\<open>DOMException\<close> of message \<open>m\<close>; nothing left: success); \<open>store_log\<close> records every
    operation that was started;
  \<^item> \<open>chatReply\<close> is what \<^verbatim>\<open>apiService.sendChatMessage\<close> settles to, as its signature
    \<^verbatim>\<open>Promise<string>\<close> has it, and \<open>gateway_log\<close> records its calls;
  \<^item> \<open>settings_slot\<close> is the entry \<^verbatim>\<open>apiConfig\<close> of \<^verbatim>\<open>localStorage\<close>;
  \<^item> \<open>clock\<close> gives the successive values of \<^verbatim>\<open>Date.now()\<close> and \<open>uuids\<close> those of
    \<^verbatim>\<open>crypto.randomUUID()\<close>;
  \<^item> \<open>unhandled\<close> collects the rejections of promises that nobody awaits;
  \<^item> \<open>renders\<close> says, for the successive occasions that React has to render once a
    send has queued an updater (when an updater is queued, which React may compute at
    once, and while the handler waits at an \<^verbatim>\<open>await\<close>), whether it does (nothing left:
    it does).
\<close>

record world =
  db :: "string \<rightharpoonup> conversation"
  store_faults :: "string option list"
  store_log :: "store_op list"
  chatReply :: "model_config \<Rightarrow> chatRequest \<Rightarrow> thrown + string"
  gateway_log :: "(model_config \<times> chatRequest) list"
  settings_slot :: "model_config option"
  clock :: "nat \<Rightarrow> nat"
  ticks :: nat
  uuids :: "nat \<Rightarrow> string"
  uuid_count :: nat
  unhandled :: "thrown list"
  renders :: "bool list"

definition date_now :: "world \<Rightarrow> nat \<times> world" where
  "date_now w = (clock w (ticks w), w\<lparr>ticks := Suc (ticks w)\<rparr>)"

definition randomUUID :: "world \<Rightarrow> string \<times> world" where
  "randomUUID w = (uuids w (uuid_count w), w\<lparr>uuid_count := Suc (uuid_count w)\<rparr>)"

subsection \<open>\<^verbatim>\<open>DatabaseService\<close>\<close>

definition saveConversation :: "conversation \<Rightarrow> world \<Rightarrow> (thrown + unit) \<times> world" where
  "saveConversation conversation w =
     (let w = w\<lparr>store_log := store_log w @ [Put conversation]\<rparr>
      in case store_faults w of
           Some m # rest \<Rightarrow> (Inl (DOMException m), w\<lparr>store_faults := rest\<rparr>)
         | None # rest \<Rightarrow>
             (Inr (), w\<lparr>store_faults := rest, db := (db w)(conv_id conversation \<mapsto> conversation)\<rparr>)
         | [] \<Rightarrow> (Inr (), w\<lparr>db := (db w)(conv_id conversation \<mapsto> conversation)\<rparr>))"

definition deleteConversation :: "string \<Rightarrow> world \<Rightarrow> (thrown + unit) \<times> world" where
  "deleteConversation i w =
     (let w = w\<lparr>store_log := store_log w @ [Delete i]\<rparr>
      in case store_faults w of
           Some m # rest \<Rightarrow> (Inl (DOMException m), w\<lparr>store_faults := rest\<rparr>)
         | None # rest \<Rightarrow> (Inr (), w\<lparr>store_faults := rest, db := (db w)(i := None)\<rparr>)
         | [] \<Rightarrow> (Inr (), w\<lparr>db := (db w)(i := None)\<rparr>))"

text \<open>The next store operation succeeds.\<close>

definition nextStoreOk :: "world \<Rightarrow> bool" where
  "nextStoreOk w = (case store_faults w of Some m # rest \<Rightarrow> False | _ \<Rightarrow> True)"

text \<open>The store operation after the next \<open>k\<close> ones succeeds.\<close>

definition storeOkAt :: "nat \<Rightarrow> world \<Rightarrow> bool" where
  "storeOkAt k w = (case drop k (store_faults w) of Some m # rest \<Rightarrow> False | _ \<Rightarrow> True)"

subsection \<open>The file readers of \<^verbatim>\<open>APIService\<close>\<close>

definition readFileAsBase64 :: "js_file \<Rightarrow> thrown + string" where
  "readFileAsBase64 f = (case file_base64 f of None \<Rightarrow> Inl ProgressEvent | Some b \<Rightarrow> Inr b)"

definition readFileAsText :: "js_file \<Rightarrow> thrown + string" where
  "readFileAsText f = (case file_text f of None \<Rightarrow> Inl ProgressEvent | Some t \<Rightarrow> Inr t)"

section \<open>The Orchestrator: \<^verbatim>\<open>App\<close>\<close>

text \<open>
  The state of the component. A handler is a closure of one render: what it reads of the
  state (\<open>snap\<close> below) are the values of that render, while its \<^verbatim>\<open>set...\<close> calls update
  the state that the next render will see (the \<open>st\<close> that a handler takes and returns).
  A handler invoked from the user interface starts with \<open>st = snap\<close>; no other handler
  runs between its steps. What a handler returns is the state once React has rendered
  after it.
\<close>

record app_state =
  conversations :: "conversation list"
  currentConversationId :: "string option"
  isConfigModalOpen :: bool
  apiConfig :: "model_config option"

definition saveConfig :: "model_config \<Rightarrow> app_state \<times> world \<Rightarrow> app_state \<times> world" where
  "saveConfig config = (\<lambda>(st, w). (st\<lparr>apiConfig := Some config\<rparr>, w\<lparr>settings_slot := Some config\<rparr>))"

definition getCurrentConversation :: "app_state \<Rightarrow> conversation option" where
  "getCurrentConversation snap =
     find (\<lambda>c. Some (conv_id c) = currentConversationId snap) (conversations snap)"

text \<open>\<^verbatim>\<open>handleNewConversation\<close>. It does not await \<^verbatim>\<open>db.saveConversation\<close>: the outcome of
  the write reaches nobody, and a rejection is left unhandled.\<close>

definition handleNewConversation :: "app_state \<Rightarrow> app_state \<times> world \<Rightarrow> app_state \<times> world" where
  "handleNewConversation snap = (\<lambda>(st, w).
     case apiConfig snap of
       None \<Rightarrow> (st\<lparr>isConfigModalOpen := True\<rparr>, w)
     | Some cfg \<Rightarrow>
         let (uuid, w) = randomUUID w;
             (created, w) = date_now w;
             (updated, w) = date_now w;
             newConversation =
               \<lparr>conv_id = uuid, conv_title = ''New Conversation'', conv_messages = [],
                conv_createdAt = created, conv_updatedAt = updated,
                conv_apiConfig =
                  \<lparr>hostname = hostname cfg, apiKey = apiKey cfg, model = model cfg\<rparr>\<rparr>;
             (r, w) = saveConversation newConversation w;
             w = (case r of Inl e \<Rightarrow> w\<lparr>unhandled := unhandled w @ [e]\<rparr> | Inr _ \<Rightarrow> w)
         in (st\<lparr>conversations := newConversation # conversations st,
                currentConversationId := Some uuid\<rparr>, w))"

text \<open>
  \<^verbatim>\<open>setConversations((prev) => prev.map((c) => (c.id === conversation.id ? updatedConversation : c)))\<close>.
  The three updaters of \<^verbatim>\<open>handleSendMessage\<close> are this one function of \<open>prev\<close>, and
  \<^verbatim>\<open>updatedConversation\<close> in it is the variable declared with \<^verbatim>\<open>let\<close> at line 91, which
  lines 138 and 155 assign again. React runs a queued updater when it renders, and the
  updater then reads the value that the variable has at that moment. \<open>publish\<close> is one run
  of the updater with the value \<open>updated\<close> of the variable.
\<close>

definition publish :: "string \<Rightarrow> conversation \<Rightarrow> app_state \<Rightarrow> app_state" where
  "publish i updated st =
     st\<lparr>conversations := map (\<lambda>c. if conv_id c = i then updated else c) (conversations st)\<rparr>"

text \<open>
  A send carries, with the state and the world, whether an updater of its own is queued
  and has not run. \<open>mayRender\<close> is an occasion for React to render while the variable
  holds \<open>updatedConversation\<close>; \<open>setConversations\<close> queues the updater, which is such an
  occasion; \<open>settle\<close> is the render that follows the end of the handler.
\<close>

definition mayRender ::
  "string \<Rightarrow> conversation \<Rightarrow> bool \<times> app_state \<times> world \<Rightarrow> bool \<times> app_state \<times> world" where
  "mayRender i updatedConversation = (\<lambda>(queued, st, w).
     case renders w of
       [] \<Rightarrow> (False, if queued then publish i updatedConversation st else st, w)
     | True # rest \<Rightarrow>
         (False, if queued then publish i updatedConversation st else st, w\<lparr>renders := rest\<rparr>)
     | False # rest \<Rightarrow> (queued, st, w\<lparr>renders := rest\<rparr>))"

definition setConversations ::
  "string \<Rightarrow> conversation \<Rightarrow> bool \<times> app_state \<times> world \<Rightarrow> bool \<times> app_state \<times> world" where
  "setConversations i updatedConversation = (\<lambda>(queued, st, w).
     mayRender i updatedConversation (True, st, w))"

definition settle ::
  "string \<Rightarrow> conversation \<Rightarrow> bool \<times> app_state \<times> world \<Rightarrow> app_state \<times> world" where
  "settle i updatedConversation = (\<lambda>(queued, st, w).
     (if queued then publish i updatedConversation st else st, w))"

text \<open>
  What the updaters of a send can have made of the state \<open>start\<close> in which it found the
  conversation of id \<open>i\<close>: nothing yet, with the updater queued, or that conversation
  replaced by a value \<open>v\<close> of \<^verbatim>\<open>updatedConversation\<close>, where \<open>P\<close> holds of the values that
  the variable takes.
\<close>

definition updaterState ::
  "(conversation \<Rightarrow> bool) \<Rightarrow> string \<Rightarrow> app_state \<Rightarrow> bool \<Rightarrow> app_state \<Rightarrow> bool" where
  "updaterState P i start queued st =
     ((queued \<and> st = start) \<or> (\<exists>v. P v \<and> conv_id v = i \<and> st = publish i v start))"

text \<open>The reading of the attachments for storage, lines 72 to 80.\<close>

definition readAttachment :: "js_file \<Rightarrow> thrown + attachment" where
  "readAttachment f =
     (case readFileAsBase64 f of
        Inl e \<Rightarrow> Inl e
      | Inr d \<Rightarrow> Inr \<lparr>att_name = file_name f, att_type = file_type f, att_data = d\<rparr>)"

definition attachmentData :: "js_file list option \<Rightarrow> thrown + attachment list option" where
  "attachmentData attachments =
     (case attachments of
        None \<Rightarrow> Inr None
      | Some files \<Rightarrow>
          (case mapThrowing readAttachment files of Inl e \<Rightarrow> Inl e | Inr ds \<Rightarrow> Inr (Some ds)))"

text \<open>The \<^verbatim>\<open>messageContent\<close> of lines 107 to 120; the handler waits for the text
  attachments when there are attachments.\<close>

definition labeledBlock :: "js_file \<Rightarrow> thrown + string" where
  "labeledBlock f =
     (case readFileAsText f of
        Inl e \<Rightarrow> Inl e
      | Inr t \<Rightarrow> Inr ([CHR 0x0A, CHR 0x0A] @ ''File: '' @ file_name f @ [CHR 0x0A] @ t))"

definition awaitsTextAttachments :: "js_file list option \<Rightarrow> bool" where
  "awaitsTextAttachments attachments =
     (case attachments of None \<Rightarrow> False | Some files \<Rightarrow> length files > 0)"

definition messageContent :: "string \<Rightarrow> js_file list option \<Rightarrow> thrown + string" where
  "messageContent content attachments =
     (case attachments of
        None \<Rightarrow> Inr content
      | Some files \<Rightarrow>
          if length files > 0
          then (case mapThrowing labeledBlock
                       (filter (\<lambda>f. startsWith (file_type f) ''text/'') files) of
                  Inl e \<Rightarrow> Inl e
                | Inr textAttachments \<Rightarrow> Inr (content @ concat textAttachments))
          else Inr content)"

text \<open>The \<^verbatim>\<open>catch\<close> block of \<^verbatim>\<open>handleSendMessage\<close>, lines 148 to 165, entered with the
  \<^verbatim>\<open>updatedConversation\<close> of that moment. When the write fails, the handler ends there and
  what is queued runs with the value assigned at line 155.\<close>

definition sendCatch ::
  "conversation \<Rightarrow> string \<Rightarrow> message list \<Rightarrow> thrown \<Rightarrow> bool \<times> app_state \<times> world
     \<Rightarrow> (thrown + unit) \<times> app_state \<times> world" where
  "sendCatch updatedConversation i updatedMessages error = (\<lambda>(queued, st, w).
     let (now, w) = date_now w;
         errorMessage =
           \<lparr>msg_role = Assistant,
            msg_content = ''Error: ''
              @ (if instanceofError error then error_message error else ''Failed to get response''),
            msg_timestamp = now, msg_attachments = None\<rparr>;
         (now, w) = date_now w;
         updatedConversation =
           updatedConversation\<lparr>conv_messages := updatedMessages @ [errorMessage],
                               conv_updatedAt := now\<rparr>;
         (r, w) = saveConversation updatedConversation w;
         s = mayRender i updatedConversation (queued, st, w)
     in case r of
          Inl e \<Rightarrow> (Inl e, settle i updatedConversation s)
        | Inr _ \<Rightarrow>
            (Inr (), settle i updatedConversation (setConversations i updatedConversation s)))"

text \<open>\<^verbatim>\<open>(m) => ({ role: m.role, content: m.content })\<close>.\<close>

definition toChat :: "message \<Rightarrow> chatMessage" where
  "toChat m = \<lparr>cm_role = msg_role m, cm_content = msg_content m\<rparr>"

text \<open>The \<^verbatim>\<open>try\<close> block, lines 106 to 147. \<^verbatim>\<open>messageContent\<close> is computed and not read
  again: the request is built from \<^verbatim>\<open>updatedMessages\<close>.\<close>

definition sendTry ::
  "model_config \<Rightarrow> string \<Rightarrow> js_file list option \<Rightarrow> conversation \<Rightarrow> string \<Rightarrow> message list
     \<Rightarrow> bool \<times> app_state \<times> world \<Rightarrow> (thrown + unit) \<times> app_state \<times> world" where
  "sendTry cfg content attachments updatedConversation i updatedMessages = (\<lambda>s.
     let s = (if awaitsTextAttachments attachments then mayRender i updatedConversation s else s)
     in case messageContent content attachments of
       Inl e \<Rightarrow> sendCatch updatedConversation i updatedMessages e s
     | Inr _ \<Rightarrow>
         let (queued, st, w) = s;
             request =
               \<lparr>req_model = model cfg,
                req_messages = sliceFrom (- 10) (map toChat updatedMessages),
                req_stream = None\<rparr>;
             w = w\<lparr>gateway_log := gateway_log w @ [(cfg, request)]\<rparr>;
             reply = chatReply w cfg request;
             (queued, st, w) = mayRender i updatedConversation (queued, st, w)
         in case reply of
              Inl e \<Rightarrow> sendCatch updatedConversation i updatedMessages e (queued, st, w)
            | Inr response \<Rightarrow>
                let (now, w) = date_now w;
                    assistantMessage =
                      \<lparr>msg_role = Assistant, msg_content = response, msg_timestamp = now,
                       msg_attachments = None\<rparr>;
                    (now, w) = date_now w;
                    updatedConversation =
                      updatedConversation\<lparr>conv_messages := updatedMessages @ [assistantMessage],
                                          conv_updatedAt := now\<rparr>;
                    (r, w) = saveConversation updatedConversation w;
                    s = mayRender i updatedConversation (queued, st, w)
                in case r of
                     Inl e \<Rightarrow> sendCatch updatedConversation i updatedMessages e s
                   | Inr _ \<Rightarrow>
                       (Inr (),
                        settle i updatedConversation (setConversations i updatedConversation s)))"

text \<open>\<^verbatim>\<open>handleSendMessage\<close>.\<close>

definition deriveTitle :: "conversation \<Rightarrow> string \<Rightarrow> string" where
  "deriveTitle conversation content =
     (if length (conv_messages conversation) = 0
      then slice 0 50 content @ (if length content > 50 then ''...'' else [])
      else conv_title conversation)"

definition handleSendMessage ::
  "app_state \<Rightarrow> string \<Rightarrow> js_file list option \<Rightarrow> app_state \<times> world
     \<Rightarrow> (thrown + unit) \<times> app_state \<times> world" where
  "handleSendMessage snap content attachments = (\<lambda>(st, w).
     case getCurrentConversation snap of
       None \<Rightarrow> (Inr (), st, w)
     | Some conversation \<Rightarrow>
        (case apiConfig snap of
           None \<Rightarrow> (Inr (), st, w)
         | Some cfg \<Rightarrow>
            (case attachmentData attachments of
               Inl e \<Rightarrow> (Inl e, st, w)
             | Inr stored \<Rightarrow>
                 let (now, w) = date_now w;
                     userMessage =
                       \<lparr>msg_role = User, msg_content = content, msg_timestamp = now,
                        msg_attachments = stored\<rparr>;
                     updatedMessages = conv_messages conversation @ [userMessage];
                     (now, w) = date_now w;
                     updatedConversation =
                       conversation\<lparr>conv_messages := updatedMessages, conv_updatedAt := now,
                                    conv_title := deriveTitle conversation content\<rparr>;
                     (r, w) = saveConversation updatedConversation w
                 in case r of
                      Inl e \<Rightarrow> (Inl e, st, w)
                    | Inr _ \<Rightarrow>
                        sendTry cfg content attachments updatedConversation
                          (conv_id conversation) updatedMessages
                          (setConversations (conv_id conversation) updatedConversation
                             (False, st, w)))))"

text \<open>\<^verbatim>\<open>handleDeleteConversation\<close>.\<close>

definition handleDeleteConversation ::
  "app_state \<Rightarrow> string \<Rightarrow> app_state \<times> world \<Rightarrow> (thrown + unit) \<times> app_state \<times> world" where
  "handleDeleteConversation snap i = (\<lambda>(st, w).
     case deleteConversation i w of
       (Inl e, w) \<Rightarrow> (Inl e, st, w)
     | (Inr _, w) \<Rightarrow>
         let st = st\<lparr>conversations := filter (\<lambda>c. conv_id c \<noteq> i) (conversations st)\<rparr>
         in (Inr (),
             if currentConversationId snap = Some i then st\<lparr>currentConversationId := None\<rparr> else st,
             w))"

text \<open>\<^verbatim>\<open>handleSaveConfig\<close>. \<^verbatim>\<open>!currentConversationId\<close> holds of \<^verbatim>\<open>undefined\<close> and of the
  empty string. The \<^verbatim>\<open>handleNewConversation\<close> it calls is the closure of the same render:
  the \<^verbatim>\<open>apiConfig\<close> it reads is the constant of that render, which the \<^verbatim>\<open>setApiConfig\<close> of
  \<^verbatim>\<open>saveConfig\<close> does not change.\<close>

definition handleSaveConfig :: "app_state \<Rightarrow> model_config \<Rightarrow> app_state \<times> world \<Rightarrow> app_state \<times> world" where
  "handleSaveConfig snap config = (\<lambda>(st, w).
     let (st, w) = saveConfig config (st, w)
     in if (case currentConversationId snap of None \<Rightarrow> True | Some i \<Rightarrow> i = [])
        then handleNewConversation snap (st, w)
        else (st, w))"

section \<open>The response shapes, as the specification words them\<close>

text \<open>
  An explicit scheme, as the specification's word for it is commonly read: the value
  starts with a scheme name (a letter, then letters, digits, \<^verbatim>\<open>+\<close>, \<^verbatim>\<open>-\<close> or \<^verbatim>\<open>.\<close>, in either
  case) followed by \<^verbatim>\<open>://\<close>. So \<^verbatim>\<open>http://x/\<close> has one and \<^verbatim>\<open>localhost:11434\<close> has none.
\<close>

definition isLetter :: "char \<Rightarrow> bool" where
  "isLetter c =
     ((97 \<le> (of_char c :: nat) \<and> (of_char c :: nat) \<le> 122)
      \<or> (65 \<le> (of_char c :: nat) \<and> (of_char c :: nat) \<le> 90))"

definition isSchemeChar :: "char \<Rightarrow> bool" where
  "isSchemeChar c =
     (isLetter c \<or> (48 \<le> (of_char c :: nat) \<and> (of_char c :: nat) \<le> 57)
      \<or> c = CHR ''+'' \<or> c = CHR ''-'' \<or> c = CHR ''.'')"

definition spec_explicitScheme :: "string \<Rightarrow> bool" where
  "spec_explicitScheme s =
     (case s of
        [] \<Rightarrow> False
      | c # cs \<Rightarrow> isLetter c \<and> startsWith (dropWhile isSchemeChar cs) ''://'')"

text \<open>The value at the end of a path of property names, \<^verbatim>\<open>undefined\<close> when a step of the
  path is missing.\<close>

fun atPath :: "jsval \<Rightarrow> string list \<Rightarrow> jsval" where
  "atPath v [] = v"
| "atPath v (k # ks) = atPath (optProp v k) ks"

text \<open>The content text of the dialect that a body matches: the text at
  \<^verbatim>\<open>choices[0].message.content\<close>, else the text at \<^verbatim>\<open>message.content\<close>; a body with
  neither matches no dialect.\<close>

definition spec_chatContent :: "jsval \<Rightarrow> string option" where
  "spec_chatContent data =
     (case atPath data [''choices'', ''0'', ''message'', ''content''] of
        JStr s \<Rightarrow> Some s
      | _ \<Rightarrow> (case atPath data [''message'', ''content''] of JStr s \<Rightarrow> Some s | _ \<Rightarrow> None))"

text \<open>\<^verbatim>\<open>a ?? b\<close>.\<close>

definition coalesce :: "jsval \<Rightarrow> jsval \<Rightarrow> jsval" where
  "coalesce a b = (if nullish a then b else a)"

text \<open>The listing of the models in the words of the specification:
  \<^verbatim>\<open>{data: [...]}\<close> maps to \<^verbatim>\<open>{id, name: name ?? id}\<close>, \<^verbatim>\<open>{models: [...]}\<close> maps to
  \<^verbatim>\<open>{id: model ?? name, name}\<close>, and any other shape gives the empty sequence.\<close>

definition spec_listModels :: "jsval \<Rightarrow> model_entry list" where
  "spec_listModels data =
     (case optProp data ''data'' of
        JArr ms \<Rightarrow>
          map (\<lambda>m. \<lparr>model_id = optProp m ''id'',
                     model_name = coalesce (optProp m ''name'') (optProp m ''id'')\<rparr>) ms
      | _ \<Rightarrow>
         (case optProp data ''models'' of
            JArr ms \<Rightarrow>
              map (\<lambda>m. \<lparr>model_id = coalesce (optProp m ''model'') (optProp m ''name''),
                         model_name = optProp m ''name''\<rparr>) ms
          | _ \<Rightarrow> []))"

text \<open>A response of status 200 with a body that parses to \<open>data\<close>.\<close>

definition okResponse :: "jsval \<Rightarrow> response" where
  "okResponse data =
     \<lparr>ok = True, statusText = ''OK'', body_text = Inr [], body_json = Inr data\<rparr>"

section \<open>Example values\<close>

definition exampleConfig :: model_config where
  "exampleConfig = \<lparr>hostname = ''localhost:11434'', apiKey = None, model = ''llama''\<rparr>"

definition otherConfig :: model_config where
  "otherConfig = \<lparr>hostname = ''api.example.org'', apiKey = Some ''Bearer k'', model = ''gpt''\<rparr>"

definition exampleWorld ::
  "(model_config \<Rightarrow> chatRequest \<Rightarrow> thrown + string) \<Rightarrow> string option list \<Rightarrow> world" where
  "exampleWorld reply faults =
     \<lparr>db = Map.empty, store_faults = faults, store_log = [], chatReply = reply,
      gateway_log = [], settings_slot = None, clock = (\<lambda>n. 1000 + n), ticks = 0,
      uuids = (\<lambda>n. ''uuid-'' @ replicate n (CHR ''x'')), uuid_count = 0, unhandled = [],
      renders = []\<rparr>"

definition exampleConversation :: "message list \<Rightarrow> conversation" where
  "exampleConversation ms =
     \<lparr>conv_id = ''c1'', conv_title = ''New Conversation'', conv_messages = ms,
      conv_createdAt = 0, conv_updatedAt = 0, conv_apiConfig = exampleConfig\<rparr>"

definition exampleState :: "message list \<Rightarrow> app_state" where
  "exampleState ms =
     \<lparr>conversations = [exampleConversation ms], currentConversationId = Some ''c1'',
      isConfigModalOpen = False, apiConfig = Some exampleConfig\<rparr>"

definition oldMessage :: message where
  "oldMessage =
     \<lparr>msg_role = Assistant, msg_content = ''old'', msg_timestamp = 0, msg_attachments = None\<rparr>"

text \<open>Eleven messages, with their time stamps and attachments.\<close>

definition numbered :: "role \<Rightarrow> string \<Rightarrow> message" where
  "numbered r c =
     \<lparr>msg_role = r, msg_content = c, msg_timestamp = 7,
      msg_attachments = Some [\<lparr>att_name = ''a.png'', att_type = ''image/png'', att_data = ''AA==''\<rparr>]\<rparr>"

definition elevenMessages :: "message list" where
  "elevenMessages =
     [numbered User ''q1'', numbered Assistant ''a1'', numbered User ''q2'',
      numbered Assistant ''a2'', numbered User ''q3'', numbered Assistant ''a3'',
      numbered System ''s4'', numbered Assistant ''a4'', numbered User ''q5'',
      numbered Assistant ''a5'', numbered User ''q6'']"

definition exampleRequest :: chatRequest where
  "exampleRequest =
     \<lparr>req_model = ''llama'', req_messages = [\<lparr>cm_role = User, cm_content = ''hi''\<rparr>],
      req_stream = None\<rparr>"

text \<open>\<^verbatim>\<open>{"choices": [{"message": {"content": s}}]}\<close> and \<^verbatim>\<open>{"message": {"content": s}}\<close>.\<close>

definition openaiBody :: "string \<Rightarrow> jsval" where
  "openaiBody s = JObj [(''choices'', JArr [JObj [(''message'', JObj [(''content'', JStr s)])]])]"

definition flatBody :: "string \<Rightarrow> jsval" where
  "flatBody s = JObj [(''message'', JObj [(''content'', JStr s)])]"

definition notFound :: response where
  "notFound =
     \<lparr>ok = False, statusText = ''Not Found'', body_text = Inr ''no such model'',
      body_json = Inl (SyntaxError ''Unexpected token'')\<rparr>"

text \<open>\<^verbatim>\<open>{"data": [...]}\<close> and \<^verbatim>\<open>{"models": [...]}\<close>, of objects.\<close>

definition dataBody :: "(string \<times> jsval) list list \<Rightarrow> jsval" where
  "dataBody ms = JObj [(''data'', JArr (map JObj ms))]"

definition modelsBody :: "(string \<times> jsval) list list \<Rightarrow> jsval" where
  "modelsBody ms = JObj [(''models'', JArr (map JObj ms))]"

definition firstRun :: app_state where
  "firstRun =
     \<lparr>conversations = [], currentConversationId = None, isConfigModalOpen = True,
      apiConfig = None\<rparr>"

text \<open>A configuration was saved earlier, and no conversation is selected.\<close>

definition unselected :: app_state where
  "unselected =
     \<lparr>conversations = [], currentConversationId = None, isConfigModalOpen = True,
      apiConfig = Some exampleConfig\<rparr>"

definition textFile :: js_file where
  "textFile =
     \<lparr>file_name = ''a.txt'', file_type = ''text/plain'', file_text = Some ''T'',
      file_base64 = Some ''VA==''\<rparr>"

section \<open>Properties of the Gateway\<close>

lemma trim_decompose:
  "\<exists>pre post. s = pre @ trim s @ post \<and> list_all isWhiteSpace pre \<and> list_all isWhiteSpace post"
proof -
  let ?a = "takeWhile isWhiteSpace s"
  let ?m = "dropWhile isWhiteSpace s"
  let ?b = "takeWhile isWhiteSpace (rev ?m)"
  have m: "rev ?m = ?b @ dropWhile isWhiteSpace (rev ?m)"
    by simp
  have "?m = rev (rev ?m)"
    by simp
  also have "\<dots> = trim s @ rev ?b"
    unfolding trim_def by (subst m) (simp only: rev_append)
  finally have "s = ?a @ trim s @ rev ?b"
    by (metis takeWhile_dropWhile_id)
  moreover have "list_all isWhiteSpace ?a"
    by (simp add: list_all_iff) (metis set_takeWhileD)
  moreover have "list_all isWhiteSpace (rev ?b)"
    by (simp add: list_all_iff) (metis set_takeWhileD)
  ultimately show ?thesis
    by blast
qed

lemma trim_ends:
  assumes "trim s \<noteq> []"
  shows "\<not> isWhiteSpace (hd (trim s))" and "\<not> isWhiteSpace (last (trim s))"
proof -
  let ?m = "dropWhile isWhiteSpace s"
  let ?r = "dropWhile isWhiteSpace (rev ?m)"
  from assms have r: "?r \<noteq> []"
    by (simp add: trim_def)
  have m: "?m \<noteq> []"
  proof
    assume "?m = []"
    with r show False
      by simp
  qed
  have "\<not> isWhiteSpace (hd ?r)"
    using r by (rule hd_dropWhile)
  then show "\<not> isWhiteSpace (last (trim s))"
    using r by (simp add: trim_def last_rev)
  have "\<not> isWhiteSpace (hd ?m)"
    using m by (rule hd_dropWhile)
  moreover have "last ?r = last (rev ?m)"
  proof -
    have "rev ?m = takeWhile isWhiteSpace (rev ?m) @ ?r"
      by simp
    then show ?thesis
      using r by (metis last_appendR)
  qed
  ultimately show "\<not> isWhiteSpace (hd (trim s))"
    using r m by (simp add: trim_def hd_rev last_rev)
qed

text \<open>
  Claim C8. \<^verbatim>\<open>normalizeHostname\<close> trims the white space around the hostname: the input is
  the trimmed value between two runs of white space, and the trimmed value neither starts
  nor ends with white space. It prefixes \<^verbatim>\<open>https://\<close> exactly when the trimmed value starts
  with neither \<^verbatim>\<open>http://\<close> nor \<^verbatim>\<open>https://\<close>, in lower case. Of the outcome it removes one
  trailing slash, when there is one, and nothing else. So \<^verbatim>\<open>localhost:11434\<close> becomes
  \<^verbatim>\<open>https://localhost:11434\<close> and \<^verbatim>\<open>http://x/\<close> becomes \<^verbatim>\<open>http://x\<close>.
\<close>

theorem normalizeHostname_trims_prefixes_strips:
  assumes "t = trim h"
    and "u = (if startsWith t ''http://'' \<or> startsWith t ''https://'' then t else ''https://'' @ t)"
  shows "(\<exists>pre post. h = pre @ t @ post
            \<and> list_all isWhiteSpace pre \<and> list_all isWhiteSpace post)
       \<and> (t \<noteq> [] \<longrightarrow> \<not> isWhiteSpace (hd t) \<and> \<not> isWhiteSpace (last t))
       \<and> (if u \<noteq> [] \<and> last u = CHR ''/''
          then normalizeHostname h @ ''/'' = u
          else normalizeHostname h = u)
       \<and> normalizeHostname ''localhost:11434'' = ''https://localhost:11434''
       \<and> normalizeHostname ''http://x/'' = ''http://x''"
proof -
  have "\<exists>pre post. h = pre @ t @ post
          \<and> list_all isWhiteSpace pre \<and> list_all isWhiteSpace post"
    unfolding assms(1) by (rule trim_decompose)
  moreover have "t \<noteq> [] \<longrightarrow> \<not> isWhiteSpace (hd t) \<and> \<not> isWhiteSpace (last t)"
    unfolding assms(1) using trim_ends by blast
  moreover have n: "normalizeHostname h = stripTrailingSlash u"
    unfolding assms normalizeHostname_def Let_def by simp
  have "if u \<noteq> [] \<and> last u = CHR ''/''
        then normalizeHostname h @ ''/'' = u
        else normalizeHostname h = u"
    unfolding n stripTrailingSlash_def by (simp add: snoc_eq_iff_butlast)
  moreover have "normalizeHostname ''localhost:11434'' = ''https://localhost:11434''"
    by (simp add: normalizeHostname_def trim_def isWhiteSpace_def startsWith_def
        stripTrailingSlash_def)
  moreover have "normalizeHostname ''http://x/'' = ''http://x''"
    by (simp add: normalizeHostname_def trim_def isWhiteSpace_def startsWith_def
        stripTrailingSlash_def)
  ultimately show ?thesis
    by blast
qed

theorem normalizeHostname_witness:
  "normalizeHostname (CHR 0x20 # ''example.org//'' @ [CHR 0x0A]) = ''https://example.org/''
   \<and> trim (CHR 0x20 # ''example.org//'' @ [CHR 0x0A]) = ''example.org//''"
proof -
  let ?h = "CHR 0x20 # ''example.org//'' @ [CHR 0x0A]"
  have t: "trim ?h = ''example.org//''"
    by (simp add: trim_def isWhiteSpace_def)
  have u: "''https://example.org//'' =
      (if startsWith ''example.org//'' ''http://'' \<or> startsWith ''example.org//'' ''https://''
       then ''example.org//'' else ''https://'' @ ''example.org//'')"
    by (simp add: startsWith_def)
  from normalizeHostname_trims_prefixes_strips [OF t [symmetric] u] t show ?thesis
    by simp
qed

text \<open>
  The prefix is not added exactly when an explicit scheme is missing: a value with the
  scheme \<^verbatim>\<open>HTTP\<close> or \<^verbatim>\<open>ftp\<close> is prefixed as well.
\<close>

theorem other_schemes_are_prefixed:
  "spec_explicitScheme (trim ''HTTP://X/'')
   \<and> normalizeHostname ''HTTP://X/'' = ''https://HTTP://X''
   \<and> spec_explicitScheme (trim ''ftp://x'')
   \<and> normalizeHostname ''ftp://x'' = ''https://ftp://x''"
  by (simp add: spec_explicitScheme_def isLetter_def isSchemeChar_def normalizeHostname_def
      trim_def isWhiteSpace_def startsWith_def stripTrailingSlash_def)

section \<open>Properties of the Orchestrator\<close>

subsection \<open>Slices, the store, the clock and the renders\<close>

lemma sliceFrom_last: "0 < n \<Longrightarrow> sliceFrom (- int n) xs = drop (length xs - n) xs"
  by (simp add: sliceFrom_def relativeIndex_def nat_diff_distrib' max_def)

lemma slice_take: "slice 0 (int n) xs = take n xs"
  by (simp add: slice_def relativeIndex_def Let_def min_def)

lemma saveConversation_gateway_log [simp]:
  "gateway_log (snd (saveConversation c w)) = gateway_log w"
  by (simp add: saveConversation_def Let_def split: list.splits option.splits)

lemma date_now_gateway_log [simp]: "gateway_log (snd (date_now w)) = gateway_log w"
  by (simp add: date_now_def)

lemma mayRender_world:
  "snd (snd (mayRender i c s)) = (snd (snd s))\<lparr>renders := drop 1 (renders (snd (snd s)))\<rparr>"
  by (cases s) (simp add: mayRender_def split: list.splits bool.splits)

lemma setConversations_world:
  "snd (snd (setConversations i c s)) = (snd (snd s))\<lparr>renders := drop 1 (renders (snd (snd s)))\<rparr>"
  by (cases s) (simp add: setConversations_def mayRender_world)

lemma settle_world [simp]: "snd (settle i c s) = snd (snd s)"
  by (cases s) (simp add: settle_def)

subsection \<open>The calls of the Gateway\<close>

lemma sendCatch_gateway_log:
  "gateway_log (snd (snd (sendCatch uc i ms e s))) = gateway_log (snd (snd s))"
  by (cases s)
    (simp add: sendCatch_def Let_def split_beta mayRender_world setConversations_world
      split: sum.splits)

lemma sendTry_gateway_log:
  "gateway_log (snd (snd (sendTry cfg content attachments uc i ms s))) =
     (case messageContent content attachments of
        Inl e \<Rightarrow> gateway_log (snd (snd s))
      | Inr x \<Rightarrow> gateway_log (snd (snd s)) @
          [(cfg, \<lparr>req_model = model cfg, req_messages = sliceFrom (- 10) (map toChat ms),
                  req_stream = None\<rparr>)])"
  by (cases s)
    (simp add: sendTry_def Let_def split_beta sendCatch_gateway_log mayRender_world
      setConversations_world split: sum.splits)

lemma saveConversation_fst:
  "fst (saveConversation c w) =
     (case store_faults w of Some m # rest \<Rightarrow> Inl (DOMException m) | _ \<Rightarrow> Inr ())"
  by (simp add: saveConversation_def Let_def split: list.splits option.splits)

lemma saveConversation_ok: "nextStoreOk w \<Longrightarrow> fst (saveConversation c w) = Inr ()"
  by (simp add: saveConversation_fst nextStoreOk_def split: list.splits option.splits)

lemma saveConversation_fails:
  "\<not> nextStoreOk w \<Longrightarrow>
     \<exists>m rest. store_faults w = Some m # rest \<and> fst (saveConversation c w) = Inl (DOMException m)"
  by (simp add: saveConversation_fst nextStoreOk_def split: list.splits option.splits)

lemma date_now_store_faults [simp]: "store_faults (snd (date_now w)) = store_faults w"
  by (simp add: date_now_def)

lemma date_now_chatReply [simp]: "chatReply (snd (date_now w)) = chatReply w"
  by (simp add: date_now_def)

lemma nextStoreOk_date_now [simp]: "nextStoreOk (snd (date_now w)) = nextStoreOk w"
  by (simp add: nextStoreOk_def)

lemma handleSendMessage_gateway_log:
  assumes "getCurrentConversation snap = Some conversation" and "apiConfig snap = Some cfg"
  shows "gateway_log (snd (snd (handleSendMessage snap content attachments (st, w)))) =
     (if isl (attachmentData attachments) \<or> \<not> nextStoreOk w
         \<or> isl (messageContent content attachments)
      then gateway_log w
      else gateway_log w @
        [(cfg, \<lparr>req_model = model cfg,
                req_messages = sliceFrom (- 10)
                  (map (\<lambda>m. \<lparr>cm_role = msg_role m, cm_content = msg_content m\<rparr>)
                     (conv_messages conversation)
                   @ [\<lparr>cm_role = User, cm_content = content\<rparr>]),
                req_stream = None\<rparr>)])"
proof (cases "attachmentData attachments")
  case (Inl e)
  then show ?thesis
    using assms by (simp add: handleSendMessage_def)
next
  case (Inr stored)
  have chat: "map toChat ms = map (\<lambda>m. \<lparr>cm_role = msg_role m, cm_content = msg_content m\<rparr>) ms"
    for ms
    by (simp add: toChat_def)
  show ?thesis
  proof (cases "nextStoreOk w")
    case False
    then obtain m rest where "store_faults w = Some m # rest"
      by (auto simp: nextStoreOk_def split: list.splits option.splits)
    then show ?thesis
      using assms Inr False
      by (simp add: handleSendMessage_def Let_def split_beta saveConversation_fst)
  next
    case True
    then show ?thesis
      using assms Inr
      by (simp add: handleSendMessage_def Let_def split_beta saveConversation_ok
          sendTry_gateway_log setConversations_world chat toChat_def split: sum.splits)
  qed
qed

text \<open>
  Claim C3. A send on the selected conversation calls the Gateway at most once, and the
  history of that call is the last 10 entries of the message log with the new user message
  appended, oldest first: all of them when there are 10 or fewer, and the last 10 of the 12
  when the conversation had 11 messages. An entry of the history is the role and the
  content of its message, and nothing else. The call is made whenever the attachments are
  read, the first write to the Store succeeds and the text attachments are read.
\<close>

theorem handleSendMessage_sends_last_10:
  assumes "getCurrentConversation snap = Some conversation"
    and "apiConfig snap = Some cfg"
    and "handleSendMessage snap content attachments (st, w) = (r, st', w')"
    and "history = map (\<lambda>m. \<lparr>cm_role = msg_role m, cm_content = msg_content m\<rparr>)
                     (conv_messages conversation)
                   @ [\<lparr>cm_role = User, cm_content = content\<rparr>]"
  shows "(gateway_log w' = gateway_log w
          \<or> (\<exists>req. gateway_log w' = gateway_log w @ [(cfg, req)]
                \<and> req_messages req = drop (length history - 10) history
                \<and> length (req_messages req) = min 10 (length history)
                \<and> (length history \<le> 10 \<longrightarrow> req_messages req = history)
                \<and> (length (conv_messages conversation) = 11 \<longrightarrow>
                     length (req_messages req) = 10 \<and> req_messages req = drop 2 history)))
       \<and> (\<not> isl (attachmentData attachments) \<and> nextStoreOk w
            \<and> \<not> isl (messageContent content attachments)
          \<longrightarrow> gateway_log w' \<noteq> gateway_log w)"
proof -
  let ?req = "\<lparr>req_model = model cfg, req_messages = sliceFrom (- 10) history,
               req_stream = None\<rparr>"
  have log: "gateway_log w' =
     (if isl (attachmentData attachments) \<or> \<not> nextStoreOk w
         \<or> isl (messageContent content attachments)
      then gateway_log w else gateway_log w @ [(cfg, ?req)])"
    using handleSendMessage_gateway_log [OF assms(1,2), of content attachments st w]
    by (simp add: assms(3,4))
  have last: "req_messages ?req = drop (length history - 10) history"
    using sliceFrom_last [of 10 history] by simp
  have len: "length (req_messages ?req) = min 10 (length history)"
    unfolding last by simp
  have short: "length history \<le> 10 \<longrightarrow> req_messages ?req = history"
    unfolding last by simp
  have eleven: "length (conv_messages conversation) = 11 \<longrightarrow>
      length (req_messages ?req) = 10 \<and> req_messages ?req = drop 2 history"
    unfolding last by (simp add: assms(4))
  show ?thesis
  proof (cases "isl (attachmentData attachments) \<or> \<not> nextStoreOk w
      \<or> isl (messageContent content attachments)")
    case True
    with log show ?thesis
      by auto
  next
    case False
    with log have call: "gateway_log w' = gateway_log w @ [(cfg, ?req)]"
      by simp
    then have "gateway_log w' \<noteq> gateway_log w"
      by simp
    with call last len short eleven show ?thesis
      by blast
  qed
qed

lemma example_current [simp]:
  "getCurrentConversation (exampleState ms) = Some (exampleConversation ms)"
  by (simp add: getCurrentConversation_def exampleState_def exampleConversation_def)

theorem handleSendMessage_sends_last_10_witness:
  "\<exists>req. gateway_log (snd (snd (handleSendMessage (exampleState elevenMessages) ''next''
             None (exampleState elevenMessages, exampleWorld (\<lambda>c r. Inr ''reply'') []))))
          = [(exampleConfig, req)]
       \<and> req_messages req =
           [\<lparr>cm_role = User, cm_content = ''q2''\<rparr>, \<lparr>cm_role = Assistant, cm_content = ''a2''\<rparr>,
            \<lparr>cm_role = User, cm_content = ''q3''\<rparr>, \<lparr>cm_role = Assistant, cm_content = ''a3''\<rparr>,
            \<lparr>cm_role = System, cm_content = ''s4''\<rparr>, \<lparr>cm_role = Assistant, cm_content = ''a4''\<rparr>,
            \<lparr>cm_role = User, cm_content = ''q5''\<rparr>, \<lparr>cm_role = Assistant, cm_content = ''a5''\<rparr>,
            \<lparr>cm_role = User, cm_content = ''q6''\<rparr>, \<lparr>cm_role = User, cm_content = ''next''\<rparr>]"
proof -
  let ?s = "exampleState elevenMessages"
  let ?w = "exampleWorld (\<lambda>c r. Inr ''reply'') []"
  let ?x = "handleSendMessage ?s ''next'' None (?s, ?w)"
  have cfg: "apiConfig ?s = Some exampleConfig"
    by (simp add: exampleState_def)
  have run: "?x = (fst ?x, fst (snd ?x), snd (snd ?x))"
    by simp
  have reach: "\<not> isl (attachmentData None) \<and> nextStoreOk ?w \<and> \<not> isl (messageContent ''next'' None)"
    by (simp add: attachmentData_def nextStoreOk_def messageContent_def exampleWorld_def)
  have conv: "conv_messages (exampleConversation elevenMessages) = elevenMessages"
    by (simp add: exampleConversation_def)
  have log: "gateway_log ?w = []"
    by (simp add: exampleWorld_def)
  from handleSendMessage_sends_last_10 [OF example_current cfg run refl] reach
  show ?thesis
    unfolding conv log by (auto simp: elevenMessages_def numbered_def)
qed

subsection \<open>Runs on the example values\<close>

lemmas example_defs = exampleState_def exampleConversation_def exampleWorld_def exampleConfig_def
  otherConfig_def textFile_def oldMessage_def

lemmas send_defs = handleSendMessage_def sendTry_def sendCatch_def getCurrentConversation_def
  attachmentData_def readAttachment_def readFileAsBase64_def messageContent_def labeledBlock_def
  readFileAsText_def startsWith_def date_now_def saveConversation_def publish_def deriveTitle_def
  toChat_def sliceFrom_def slice_def relativeIndex_def mayRender_def setConversations_def
  settle_def awaitsTextAttachments_def Let_def split_beta

text \<open>
  Claim C1. The outgoing message content of a send with a text attachment should be the
  user's text followed by the labeled block of the attachment. The code computes that
  text, \<^verbatim>\<open>messageContent\<close>, and then builds the request from \<^verbatim>\<open>updatedMessages\<close>, whose
  last entry holds the user's text alone: a send of \<^verbatim>\<open>hi\<close> with the text file \<^verbatim>\<open>a.txt\<close>
  of content \<^verbatim>\<open>T\<close> computes the content with the block and sends \<^verbatim>\<open>hi\<close>.
\<close>

theorem messageContent_not_sent:
  "messageContent ''hi'' (Some [textFile]) =
     Inr (''hi'' @ [CHR 0x0A, CHR 0x0A] @ ''File: a.txt'' @ [CHR 0x0A] @ ''T'')
   \<and> map (\<lambda>(c, req). map cm_content (req_messages req))
       (gateway_log (snd (snd (handleSendMessage (exampleState []) ''hi'' (Some [textFile])
          (exampleState [], exampleWorld (\<lambda>c r. Inr ''reply'') [])))))
     = [[''hi'']]"
  by (simp add: send_defs example_defs)

text \<open>
  Claim C2. A send should use the configuration pinned to the conversation. The code
  passes the current global configuration to the Gateway: after the settings are saved
  with another host and model while the conversation is selected, the conversation still
  holds the configuration it was created with (model \<^verbatim>\<open>llama\<close>), and its next send goes
  to the new host with the new model.
\<close>

theorem send_uses_global_config:
  "map conv_apiConfig
     (conversations (fst (handleSaveConfig (exampleState []) otherConfig
        (exampleState [], exampleWorld (\<lambda>c r. Inr ''reply'') []))))
     = [exampleConfig]
   \<and> model exampleConfig = ''llama''
   \<and> map (\<lambda>(c, req). (hostname c, req_model req))
       (gateway_log (snd (snd
          (handleSendMessage
             (fst (handleSaveConfig (exampleState []) otherConfig
                (exampleState [], exampleWorld (\<lambda>c r. Inr ''reply'') [])))
             ''hi'' None
             (handleSaveConfig (exampleState []) otherConfig
                (exampleState [], exampleWorld (\<lambda>c r. Inr ''reply'') []))))))
     = [(''api.example.org'', ''gpt'')]"
  by (simp add: send_defs example_defs handleSaveConfig_def saveConfig_def)

text \<open>
  Claim C10. Saving the configuration while no conversation is selected should also
  create, persist and select a new conversation. \<^verbatim>\<open>saveConfig\<close> calls \<^verbatim>\<open>setApiConfig\<close>,
  which sets the value for the next render, and the \<^verbatim>\<open>handleNewConversation\<close> that
  \<^verbatim>\<open>handleSaveConfig\<close> then calls still reads the \<^verbatim>\<open>apiConfig\<close> of the render in which
  both were created. On the first save there is none: no conversation is created, nothing
  is written to the Store and nothing is selected. On a later save, the conversation that
  is created is pinned to the configuration that was replaced.
\<close>

theorem first_saveConfig_creates_nothing:
  "conversations (fst (handleSaveConfig firstRun exampleConfig
      (firstRun, exampleWorld (\<lambda>c r. Inr ''reply'') []))) = []
   \<and> currentConversationId (fst (handleSaveConfig firstRun exampleConfig
      (firstRun, exampleWorld (\<lambda>c r. Inr ''reply'') []))) = None
   \<and> apiConfig (fst (handleSaveConfig firstRun exampleConfig
      (firstRun, exampleWorld (\<lambda>c r. Inr ''reply'') []))) = Some exampleConfig
   \<and> settings_slot (snd (handleSaveConfig firstRun exampleConfig
      (firstRun, exampleWorld (\<lambda>c r. Inr ''reply'') []))) = Some exampleConfig
   \<and> store_log (snd (handleSaveConfig firstRun exampleConfig
      (firstRun, exampleWorld (\<lambda>c r. Inr ''reply'') []))) = []
   \<and> map (\<lambda>c. (conv_id c, conv_apiConfig c))
       (conversations (fst (handleSaveConfig unselected otherConfig
          (unselected, exampleWorld (\<lambda>c r. Inr ''reply'') []))))
     = [(''uuid-'', exampleConfig)]
   \<and> apiConfig (fst (handleSaveConfig unselected otherConfig
          (unselected, exampleWorld (\<lambda>c r. Inr ''reply'') []))) = Some otherConfig"
  by (simp add: handleSaveConfig_def saveConfig_def handleNewConversation_def firstRun_def
      unselected_def exampleWorld_def randomUUID_def date_now_def saveConversation_def
      exampleConfig_def Let_def)

subsection \<open>The state after a send\<close>

lemma find_map_replace:
  assumes "find (\<lambda>c. Some (conv_id c) = cur) cs = Some c" and "conv_id u = conv_id c"
  shows "find (\<lambda>c. Some (conv_id c) = cur) (map (\<lambda>x. if conv_id x = conv_id c then u else x) cs)
         = Some u"
  using assms by (induction cs) (auto split: if_splits)

lemma publish_current:
  assumes "getCurrentConversation st = Some c" and "conv_id u = conv_id c"
  shows "getCurrentConversation (publish (conv_id c) u st) = Some u"
  using find_map_replace [OF assms [unfolded getCurrentConversation_def]]
  by (simp add: getCurrentConversation_def publish_def)

lemma publish_publish:
  "conv_id v = i \<Longrightarrow> publish i u (publish i v st) = publish i u st"
  by (auto simp: publish_def)

lemma updaterState_mayRender:
  assumes "updaterState P i start (fst s) (fst (snd s))" and "P c" and "conv_id c = i"
  shows "updaterState P i start (fst (mayRender i c s)) (fst (snd (mayRender i c s)))"
proof (cases s)
  case (fields q st w)
  with assms show ?thesis
    by (auto simp: updaterState_def mayRender_def publish_publish split: list.splits bool.splits)
qed

lemma updaterState_setConversations:
  assumes "updaterState P i start (fst s) (fst (snd s)) \<or> fst (snd s) = start"
    and "P c" and "conv_id c = i"
  shows "updaterState P i start (fst (setConversations i c s)) (fst (snd (setConversations i c s)))"
proof (cases s)
  case (fields q st w)
  with assms(1) have "updaterState P i start True st"
    by (auto simp: updaterState_def)
  with updaterState_mayRender [of P i start "(True, st, w)" c] assms(2,3) fields show ?thesis
    by (simp add: setConversations_def)
qed

lemma updaterState_settle:
  assumes "updaterState P i start (fst s) (fst (snd s))" and "P c" and "conv_id c = i"
  shows "\<exists>v. P v \<and> conv_id v = i \<and> fst (settle i c s) = publish i v start"
proof (cases s)
  case (fields q st w)
  with assms show ?thesis
    by (auto simp: updaterState_def settle_def publish_publish)
qed

lemma settle_setConversations:
  assumes "updaterState P i start (fst s) (fst (snd s)) \<or> fst (snd s) = start" and "conv_id c = i"
  shows "fst (settle i c (setConversations i c s)) = publish i c start"
proof (cases s)
  case (fields q st w)
  with assms show ?thesis
    by (auto simp: updaterState_def settle_def setConversations_def mayRender_def publish_publish
        split: list.splits bool.splits)
qed

lemma sendCatch_state:
  assumes "updaterState P i start (fst s) (fst (snd s))" and "conv_id uc = i"
    and "\<And>x t. P (uc\<lparr>conv_messages := ms @ [x], conv_updatedAt := t\<rparr>)"
  shows "\<exists>v. P v \<and> conv_id v = i \<and> fst (snd (sendCatch uc i ms e s)) = publish i v start"
proof -
  let ?w1 = "snd (date_now (snd (snd s)))"
  let ?em = "\<lparr>msg_role = Assistant,
     msg_content = ''Error: ''
       @ (if instanceofError e then error_message e else ''Failed to get response''),
     msg_timestamp = fst (date_now (snd (snd s))), msg_attachments = None\<rparr>"
  let ?uc = "uc\<lparr>conv_messages := ms @ [?em], conv_updatedAt := fst (date_now ?w1)\<rparr>"
  let ?save = "saveConversation ?uc (snd (date_now ?w1))"
  let ?s1 = "mayRender i ?uc (fst s, fst (snd s), snd ?save)"
  have P: "P ?uc" and i: "conv_id ?uc = i"
    using assms(2,3) by simp_all
  have inv: "updaterState P i start (fst ?s1) (fst (snd ?s1))"
    using updaterState_mayRender [of P i start "(fst s, fst (snd s), snd ?save)" ?uc] assms(1) P i
    by simp
  show ?thesis
  proof (cases "fst ?save")
    case (Inl e')
    then have "fst (snd (sendCatch uc i ms e s)) = fst (settle i ?uc ?s1)"
      by (simp add: sendCatch_def Let_def split_beta)
    with updaterState_settle [OF inv P i] show ?thesis
      by simp
  next
    case (Inr u)
    then have "fst (snd (sendCatch uc i ms e s))
        = fst (settle i ?uc (setConversations i ?uc ?s1))"
      by (simp add: sendCatch_def Let_def split_beta)
    with settle_setConversations [of P i start ?s1 ?uc] inv P i show ?thesis
      by auto
  qed
qed

lemma sendTry_state:
  assumes "updaterState P i start (fst s) (fst (snd s))" and "conv_id uc = i" and "P uc"
    and "\<And>x t. P (uc\<lparr>conv_messages := ms @ [x], conv_updatedAt := t\<rparr>)"
  shows "\<exists>v. P v \<and> conv_id v = i
           \<and> fst (snd (sendTry cfg content attachments uc i ms s)) = publish i v start"
proof -
  let ?s1 = "if awaitsTextAttachments attachments then mayRender i uc s else s"
  have inv1: "updaterState P i start (fst ?s1) (fst (snd ?s1))"
    using updaterState_mayRender [OF assms(1,3,2)] assms(1) by simp
  show ?thesis
  proof (cases "messageContent content attachments")
    case (Inl e)
    then have "sendTry cfg content attachments uc i ms s = sendCatch uc i ms e ?s1"
      by (simp add: sendTry_def Let_def)
    with sendCatch_state [OF inv1 assms(2,4)] show ?thesis
      by simp
  next
    case (Inr mc)
    let ?req = "\<lparr>req_model = model cfg, req_messages = sliceFrom (- 10) (map toChat ms),
                 req_stream = None\<rparr>"
    let ?w = "(snd (snd ?s1))\<lparr>gateway_log := gateway_log (snd (snd ?s1)) @ [(cfg, ?req)]\<rparr>"
    let ?s2 = "mayRender i uc (fst ?s1, fst (snd ?s1), ?w)"
    have inv2: "updaterState P i start (fst ?s2) (fst (snd ?s2))"
      using updaterState_mayRender [of P i start "(fst ?s1, fst (snd ?s1), ?w)" uc] inv1 assms(2,3)
      by simp
    show ?thesis
    proof (cases "chatReply ?w cfg ?req")
      case (Inl e)
      with Inr have "sendTry cfg content attachments uc i ms s = sendCatch uc i ms e ?s2"
        by (simp add: sendTry_def Let_def split_beta)
      with sendCatch_state [OF inv2 assms(2,4)] show ?thesis
        by simp
    next
      case reply: (Inr response)
      let ?w1 = "snd (date_now (snd (snd ?s2)))"
      let ?am = "\<lparr>msg_role = Assistant, msg_content = response,
        msg_timestamp = fst (date_now (snd (snd ?s2))), msg_attachments = None\<rparr>"
      let ?uc = "uc\<lparr>conv_messages := ms @ [?am], conv_updatedAt := fst (date_now ?w1)\<rparr>"
      let ?save = "saveConversation ?uc (snd (date_now ?w1))"
      let ?s3 = "mayRender i ?uc (fst ?s2, fst (snd ?s2), snd ?save)"
      have P: "P ?uc" and i: "conv_id ?uc = i"
        using assms(2,4) by simp_all
      have inv3: "updaterState P i start (fst ?s3) (fst (snd ?s3))"
        using updaterState_mayRender [of P i start "(fst ?s2, fst (snd ?s2), snd ?save)" ?uc]
          inv2 P i by simp
      show ?thesis
      proof (cases "fst ?save")
        case (Inl e)
        with Inr reply have "sendTry cfg content attachments uc i ms s
            = sendCatch ?uc i ms e ?s3"
          by (simp add: sendTry_def Let_def split_beta)
        moreover have "\<exists>v. P v \<and> conv_id v = i
            \<and> fst (snd (sendCatch ?uc i ms e ?s3)) = publish i v start"
          using assms(4) by (intro sendCatch_state [OF inv3 i]) simp
        ultimately show ?thesis
          by simp
      next
        case saved: (Inr u)
        with Inr reply have "fst (snd (sendTry cfg content attachments uc i ms s))
            = fst (settle i ?uc (setConversations i ?uc ?s3))"
          by (simp add: sendTry_def Let_def split_beta)
        with settle_setConversations [of P i start ?s3 ?uc] inv3 P i show ?thesis
          by auto
      qed
    qed
  qed
qed

lemma deriveTitle_eq:
  "deriveTitle c content =
     (if conv_messages c = []
      then (if length content \<le> 50 then content else take 50 content @ ''...'')
      else conv_title c)"
  using slice_take [of 50 content] by (simp add: deriveTitle_def)

text \<open>
  Claim C9. After a send on the selected conversation, that conversation is still the
  selected one. When the user message was not stored (an attachment could not be read, or
  the first write to the Store failed) the conversation is as before. Otherwise it has
  messages, and its title is the content of the message when the conversation had no
  message before (the whole content when it has at most 50 code units, its first 50
  followed by \<^verbatim>\<open>...\<close> when it is longer), and the title it had when it had messages:
  a send after the first one does not change the title.
\<close>

theorem title_derived_from_first_message:
  assumes "getCurrentConversation snap = Some conversation"
    and "apiConfig snap = Some cfg"
    and "handleSendMessage snap content attachments (snap, w) = (r, st', w')"
  shows "\<exists>c'. getCurrentConversation st' = Some c'
     \<and> (if isl (attachmentData attachments) \<or> \<not> nextStoreOk w
        then c' = conversation
        else conv_messages c' \<noteq> []
           \<and> conv_title c' =
               (if conv_messages conversation = []
                then (if length content \<le> 50 then content else take 50 content @ ''...'')
                else conv_title conversation))"
proof (cases "attachmentData attachments")
  case (Inl e)
  then show ?thesis
    using assms by (simp add: handleSendMessage_def)
next
  case (Inr stored)
  let ?w1 = "snd (date_now w)"
  let ?w2 = "snd (date_now ?w1)"
  let ?um = "\<lparr>msg_role = User, msg_content = content, msg_timestamp = fst (date_now w),
              msg_attachments = stored\<rparr>"
  let ?ms = "conv_messages conversation @ [?um]"
  let ?uc = "conversation\<lparr>conv_messages := ?ms, conv_updatedAt := fst (date_now ?w1),
                          conv_title := deriveTitle conversation content\<rparr>"
  let ?i = "conv_id conversation"
  let ?P = "\<lambda>v. conv_messages v \<noteq> [] \<and> conv_title v = deriveTitle conversation content"
  show ?thesis
  proof (cases "nextStoreOk w")
    case False
    then obtain m where "fst (saveConversation ?uc ?w2) = Inl (DOMException m)"
      using saveConversation_fails [of ?w2 ?uc] by auto
    then show ?thesis
      using assms Inr False by (simp add: handleSendMessage_def Let_def split_beta)
  next
    case True
    then have ok: "fst (saveConversation ?uc ?w2) = Inr ()"
      by (simp add: saveConversation_ok)
    let ?s = "setConversations ?i ?uc (False, snap, snd (saveConversation ?uc ?w2))"
    have st': "st' = fst (snd (sendTry cfg content attachments ?uc ?i ?ms ?s))"
      using assms Inr ok by (simp add: handleSendMessage_def Let_def split_beta)
    have inv: "updaterState ?P ?i snap (fst ?s) (fst (snd ?s))"
      by (rule updaterState_setConversations) simp_all
    from sendTry_state [of ?P ?i snap ?s ?uc ?ms cfg content attachments, OF inv]
    obtain u where u: "st' = publish ?i u snap" "conv_id u = ?i"
      "conv_messages u \<noteq> []" "conv_title u = deriveTitle conversation content"
      unfolding st' by auto
    from publish_current [OF assms(1) u(2)] u have
      "getCurrentConversation st' = Some u"
      by simp
    with u True Inr show ?thesis
      by (simp add: deriveTitle_eq)
  qed
qed

theorem title_derived_from_first_message_witness:
  "(\<exists>c'. getCurrentConversation (fst (snd (handleSendMessage (exampleState []) ''Hello world'' None
              (exampleState [], exampleWorld (\<lambda>c r. Inr ''reply'') [])))) = Some c'
         \<and> conv_title c' = ''Hello world'')
   \<and> (\<exists>c'. getCurrentConversation (fst (snd (handleSendMessage (exampleState [])
              (replicate 60 (CHR ''a'')) None
              (exampleState [], exampleWorld (\<lambda>c r. Inr ''reply'') [])))) = Some c'
         \<and> conv_title c' = replicate 50 (CHR ''a'') @ ''...'')
   \<and> (\<exists>c'. getCurrentConversation (fst (snd (handleSendMessage (exampleState [oldMessage])
              ''Hello world'' None
              (exampleState [oldMessage], exampleWorld (\<lambda>c r. Inr ''reply'') [])))) = Some c'
         \<and> conv_title c' = ''New Conversation'')"
proof -
  let ?w = "exampleWorld (\<lambda>c r. Inr ''reply'') []"
  have cfg: "apiConfig (exampleState ms) = Some exampleConfig" for ms
    by (simp add: exampleState_def)
  have run: "x = (fst x, fst (snd x), snd (snd x))" for x :: "(thrown + unit) \<times> app_state \<times> world"
    by simp
  have reach: "\<not> (isl (attachmentData None) \<or> \<not> nextStoreOk ?w)"
    by (simp add: attachmentData_def nextStoreOk_def exampleWorld_def)
  have c: "conv_messages (exampleConversation ms) = ms"
    "conv_title (exampleConversation ms) = ''New Conversation''" for ms
    by (simp_all add: exampleConversation_def)
  show ?thesis
    using title_derived_from_first_message [OF example_current cfg run,
        of "[]" "''Hello world''" None ?w]
      title_derived_from_first_message [OF example_current cfg run,
        of "[]" "replicate 60 (CHR ''a'')" None ?w]
      title_derived_from_first_message [OF example_current cfg run,
        of "[oldMessage]" "''Hello world''" None ?w]
    unfolding if_not_P [OF reach] c by simp blast
qed

subsection \<open>The writes of a send\<close>

lemma date_now_store_log [simp]: "store_log (snd (date_now w)) = store_log w"
  by (simp add: date_now_def)

lemma saveConversation_store_log [simp]:
  "store_log (snd (saveConversation c w)) = store_log w @ [Put c]"
  by (simp add: saveConversation_def Let_def split: list.splits option.splits)

lemma saveConversation_store_faults [simp]:
  "store_faults (snd (saveConversation c w)) = drop 1 (store_faults w)"
  by (simp add: saveConversation_def Let_def drop_Suc split: list.splits option.splits)

lemma saveConversation_chatReply [simp]:
  "chatReply (snd (saveConversation c w)) = chatReply w"
  by (simp add: saveConversation_def Let_def split: list.splits option.splits)

lemma storeOkAt_0: "storeOkAt 0 w = nextStoreOk w"
  by (simp add: storeOkAt_def nextStoreOk_def)

lemma nextStoreOk_saveConversation [simp]:
  "nextStoreOk (snd (saveConversation c w)) = storeOkAt 1 w"
  by (simp add: storeOkAt_def nextStoreOk_def)

lemma nextStoreOk_gateway_log [simp]:
  "nextStoreOk (w\<lparr>gateway_log := g\<rparr>) = nextStoreOk w"
  by (simp add: nextStoreOk_def)

lemma nextStoreOk_renders [simp]:
  "nextStoreOk (w\<lparr>renders := rs\<rparr>) = nextStoreOk w"
  by (simp add: nextStoreOk_def)

lemma date_now_renders [simp]:
  "fst (date_now (w\<lparr>renders := rs\<rparr>)) = fst (date_now w)"
  "snd (date_now (w\<lparr>renders := rs\<rparr>)) = (snd (date_now w))\<lparr>renders := rs\<rparr>"
  by (simp_all add: date_now_def)

lemma date_now_gateway_log_update [simp]:
  "fst (date_now (w\<lparr>gateway_log := g\<rparr>)) = fst (date_now w)"
  "snd (date_now (w\<lparr>gateway_log := g\<rparr>)) = (snd (date_now w))\<lparr>gateway_log := g\<rparr>"
  by (simp_all add: date_now_def)

lemma sendCatch_outcome:
  assumes "em = \<lparr>msg_role = Assistant,
       msg_content = ''Error: ''
         @ (if instanceofError e then error_message e else ''Failed to get response''),
       msg_timestamp = fst (date_now (snd (snd s))), msg_attachments = None\<rparr>"
    and "uc' = uc\<lparr>conv_messages := ms @ [em],
       conv_updatedAt := fst (date_now (snd (date_now (snd (snd s)))))\<rparr>"
    and "updaterState P i start (fst s) (fst (snd s))" and "conv_id uc = i" and "P uc'"
  shows "store_log (snd (snd (sendCatch uc i ms e s))) = store_log (snd (snd s)) @ [Put uc']
      \<and> (if nextStoreOk (snd (snd s))
         then fst (sendCatch uc i ms e s) = Inr ()
            \<and> fst (snd (sendCatch uc i ms e s)) = publish i uc' start
         else (\<exists>m rest. store_faults (snd (snd s)) = Some m # rest
                 \<and> fst (sendCatch uc i ms e s) = Inl (DOMException m))
            \<and> (\<exists>v. P v \<and> conv_id v = i \<and> fst (snd (sendCatch uc i ms e s)) = publish i v start))"
proof -
  let ?w2 = "snd (date_now (snd (date_now (snd (snd s)))))"
  let ?save = "saveConversation uc' ?w2"
  let ?s1 = "mayRender i uc' (fst s, fst (snd s), snd ?save)"
  have i: "conv_id uc' = i"
    using assms(4) by (simp add: assms(2))
  have inv: "updaterState P i start (fst ?s1) (fst (snd ?s1))"
    using updaterState_mayRender [of P i start "(fst s, fst (snd s), snd ?save)" uc'] assms(3,5) i
    by simp
  have log: "store_log (snd (snd (sendCatch uc i ms e s))) = store_log (snd (snd s)) @ [Put uc']"
    by (simp add: sendCatch_def Let_def split_beta mayRender_world setConversations_world
        assms(1,2) split: sum.splits)
  have res: "if nextStoreOk (snd (snd s))
         then fst (sendCatch uc i ms e s) = Inr ()
            \<and> fst (snd (sendCatch uc i ms e s)) = publish i uc' start
         else (\<exists>m rest. store_faults (snd (snd s)) = Some m # rest
                 \<and> fst (sendCatch uc i ms e s) = Inl (DOMException m))
            \<and> (\<exists>v. P v \<and> conv_id v = i \<and> fst (snd (sendCatch uc i ms e s)) = publish i v start)"
  proof (cases "nextStoreOk (snd (snd s))")
    case True
    then have ok: "fst ?save = Inr ()"
      by (simp add: saveConversation_ok)
    then have "fst (sendCatch uc i ms e s) = Inr ()"
      "fst (snd (sendCatch uc i ms e s)) = fst (settle i uc' (setConversations i uc' ?s1))"
      by (simp_all add: sendCatch_def Let_def split_beta assms(1,2))
    with settle_setConversations [of P i start ?s1 uc'] inv i True show ?thesis
      by simp
  next
    case False
    then obtain m rest where f: "store_faults (snd (snd s)) = Some m # rest"
      "fst ?save = Inl (DOMException m)"
      using saveConversation_fails [of ?w2 uc'] by auto
    then have "fst (sendCatch uc i ms e s) = Inl (DOMException m)"
      "fst (snd (sendCatch uc i ms e s)) = fst (settle i uc' ?s1)"
      by (simp_all add: sendCatch_def Let_def split_beta assms(1,2))
    with updaterState_settle [OF inv assms(5) i] f(1) False show ?thesis
      by auto
  qed
  from log res show ?thesis
    by blast
qed

subsection \<open>A send whose Gateway call fails\<close>

text \<open>What \<^verbatim>\<open>sendChatMessage\<close> throws is an instance of \<^verbatim>\<open>Error\<close>, as long as what
  \<^verbatim>\<open>fetch\<close> and the readers of the body reject with is one (a \<^verbatim>\<open>TypeError\<close>, a
  \<^verbatim>\<open>SyntaxError\<close>, a \<^verbatim>\<open>DOMException\<close>).\<close>

lemma sendChatMessage_throws_Error:
  assumes "\<And>q e. fetch q = Inl e \<Longrightarrow> instanceofError e"
    and "\<And>q r e. fetch q = Inr r \<Longrightarrow> body_text r = Inl e \<or> body_json r = Inl e \<Longrightarrow> instanceofError e"
    and "sendChatMessage fetch config request = Inl e"
  shows "instanceofError e"
proof -
  let ?q = "\<lparr>url = normalizeHostname (hostname config) @ ''/v1/chat/completions'',
             http_method = ''POST'', headers = getHeaders (apiKey config),
             body = Some (request\<lparr>req_stream := Some False\<rparr>)\<rparr>"
  show ?thesis
  proof (cases "fetch ?q")
    case (Inl e')
    with assms(1,3) show ?thesis
      by (auto simp: sendChatMessage_def)
  next
    case (Inr r)
    with assms(2) [of ?q r e] assms(3) show ?thesis
      by (auto simp: sendChatMessage_def getProp_def Let_def split: sum.splits if_splits)
  qed
qed

lemma handleSendMessage_unblocked:
  assumes "getCurrentConversation snap = Some conversation"
    and "apiConfig snap = Some cfg"
    and "attachmentData attachments = Inr stored"
    and "nextStoreOk w"
    and "um = \<lparr>msg_role = User, msg_content = content, msg_timestamp = fst (date_now w),
               msg_attachments = stored\<rparr>"
    and "uc = conversation\<lparr>conv_messages := conv_messages conversation @ [um],
               conv_updatedAt := fst (date_now (snd (date_now w))),
               conv_title := deriveTitle conversation content\<rparr>"
  shows "handleSendMessage snap content attachments (st, w) =
     sendTry cfg content attachments uc (conv_id conversation) (conv_messages conversation @ [um])
       (setConversations (conv_id conversation) uc
          (False, st, snd (saveConversation uc (snd (date_now (snd (date_now w)))))))"
proof -
  have "fst (saveConversation uc (snd (date_now (snd (date_now w))))) = Inr ()"
    using assms(4) by (simp add: saveConversation_ok)
  then show ?thesis
    using assms(1,2,3) unfolding assms(5,6)
    by (simp add: handleSendMessage_def Let_def split_beta)
qed

lemma sendTry_gateway_fails:
  assumes "messageContent content attachments = Inr mc"
    and "s1 = (if awaitsTextAttachments attachments then mayRender i uc s else s)"
    and "request = \<lparr>req_model = model cfg, req_messages = sliceFrom (- 10) (map toChat ms),
           req_stream = None\<rparr>"
    and "chatReply (snd (snd s)) cfg request = Inl e"
  shows "sendTry cfg content attachments uc i ms s =
     sendCatch uc i ms e
       (mayRender i uc (fst s1, fst (snd s1),
          (snd (snd s1))\<lparr>gateway_log := gateway_log (snd (snd s1)) @ [(cfg, request)]\<rparr>))"
proof -
  have "chatReply ((snd (snd s1))\<lparr>gateway_log := gateway_log (snd (snd s1)) @ [(cfg, request)]\<rparr>)
      cfg request = Inl e"
    using assms(4) by (simp add: assms(2) mayRender_world)
  then show ?thesis
    using assms(1) unfolding assms(3) by (simp add: sendTry_def Let_def split_beta assms(2))
qed

lemma handleSendMessage_gateway_failure:
  assumes "getCurrentConversation snap = Some conversation"
    and "apiConfig snap = Some cfg"
    and "handleSendMessage snap content attachments (snap, w) = (r, st', w')"
    and "gateway_log w' = gateway_log w @ [(cfg, req)]"
    and "chatReply w cfg req = Inl e"
  shows "\<exists>um em uc1 uc2.
           store_log w' = store_log w @ [Put uc1, Put uc2]
         \<and> conv_messages uc1 = conv_messages conversation @ [um]
         \<and> conv_messages uc2 = conv_messages conversation @ [um, em]
         \<and> msg_role um = User \<and> msg_content um = content
         \<and> msg_role em = Assistant
         \<and> msg_content em = ''Error: ''
              @ (if instanceofError e then error_message e else ''Failed to get response'')
         \<and> (if storeOkAt 1 w
            then r = Inr () \<and> st' = publish (conv_id conversation) uc2 snap
            else (\<exists>m rest. drop 1 (store_faults w) = Some m # rest \<and> r = Inl (DOMException m))
               \<and> (st' = publish (conv_id conversation) uc1 snap
                  \<or> st' = publish (conv_id conversation) uc2 snap))"
proof -
  let ?i = "conv_id conversation"
  let ?REQ = "\<lparr>req_model = model cfg,
       req_messages = sliceFrom (- 10)
         (map (\<lambda>m. \<lparr>cm_role = msg_role m, cm_content = msg_content m\<rparr>)
            (conv_messages conversation) @ [\<lparr>cm_role = User, cm_content = content\<rparr>]),
       req_stream = None\<rparr>"
  have log: "gateway_log w' =
     (if isl (attachmentData attachments) \<or> \<not> nextStoreOk w
         \<or> isl (messageContent content attachments)
      then gateway_log w else gateway_log w @ [(cfg, ?REQ)])"
    using handleSendMessage_gateway_log [OF assms(1,2), of content attachments snap w]
    by (simp add: assms(3))
  with assms(4) have unblocked: "\<not> isl (attachmentData attachments)" "nextStoreOk w"
    "\<not> isl (messageContent content attachments)" and req: "req = ?REQ"
    by (auto split: if_splits)
  from unblocked obtain stored mc where att: "attachmentData attachments = Inr stored"
    and mc: "messageContent content attachments = Inr mc"
    by (metis isl_def sum.exhaust)
  define um where "um = \<lparr>msg_role = User, msg_content = content,
    msg_timestamp = fst (date_now w), msg_attachments = stored\<rparr>"
  define uc where "uc = conversation\<lparr>conv_messages := conv_messages conversation @ [um],
    conv_updatedAt := fst (date_now (snd (date_now w))),
    conv_title := deriveTitle conversation content\<rparr>"
  define w1 where "w1 = snd (saveConversation uc (snd (date_now (snd (date_now w)))))"
  define s0 where "s0 = setConversations ?i uc (False, snap, w1)"
  define s1 where "s1 = (if awaitsTextAttachments attachments then mayRender ?i uc s0 else s0)"
  define request where "request = \<lparr>req_model = model cfg,
    req_messages = sliceFrom (- 10) (map toChat (conv_messages conversation @ [um])),
    req_stream = None\<rparr>"
  define s2 where "s2 = mayRender ?i uc (fst s1, fst (snd s1),
    (snd (snd s1))\<lparr>gateway_log := gateway_log (snd (snd s1)) @ [(cfg, request)]\<rparr>)"
  define em where "em = \<lparr>msg_role = Assistant,
    msg_content = ''Error: ''
      @ (if instanceofError e then error_message e else ''Failed to get response''),
    msg_timestamp = fst (date_now (snd (snd s2))), msg_attachments = None\<rparr>"
  define uc' where "uc' = uc\<lparr>conv_messages := (conv_messages conversation @ [um]) @ [em],
    conv_updatedAt := fst (date_now (snd (date_now (snd (snd s2)))))\<rparr>"
  let ?ms = "conv_messages conversation @ [um]"
  let ?P = "\<lambda>v. v = uc \<or> v = uc'"
  have i: "conv_id uc = ?i"
    by (simp add: uc_def)
  have tc: "toChat = (\<lambda>m. \<lparr>cm_role = msg_role m, cm_content = msg_content m\<rparr>)"
    by (rule ext) (simp add: toChat_def)
  have request: "request = req"
    by (simp add: request_def req um_def tc)
  have w_s0: "snd (snd s0) = w1\<lparr>renders := drop 1 (renders w1)\<rparr>"
    by (simp add: s0_def setConversations_world)
  have reply: "chatReply (snd (snd s0)) cfg request = Inl e"
    using assms(5) by (simp add: w_s0 w1_def request)
  have "handleSendMessage snap content attachments (snap, w)
      = sendTry cfg content attachments uc ?i ?ms s0"
    unfolding s0_def w1_def
    by (rule handleSendMessage_unblocked [OF assms(1,2) att unblocked(2) um_def uc_def])
  also have "\<dots> = sendCatch uc ?i ?ms e s2"
    unfolding s2_def by (rule sendTry_gateway_fails [OF mc s1_def request_def reply])
  finally have run: "sendCatch uc ?i ?ms e s2 = (r, st', w')"
    using assms(3) by simp
  have inv0: "updaterState ?P ?i snap (fst s0) (fst (snd s0))"
    unfolding s0_def by (rule updaterState_setConversations) (simp_all add: i)
  have inv1: "updaterState ?P ?i snap (fst s1) (fst (snd s1))"
    unfolding s1_def using updaterState_mayRender [OF inv0, of uc] inv0 i by simp
  have inv2: "updaterState ?P ?i snap (fst s2) (fst (snd s2))"
    unfolding s2_def
    using updaterState_mayRender [of ?P ?i snap "(fst s1, fst (snd s1),
      (snd (snd s1))\<lparr>gateway_log := gateway_log (snd (snd s1)) @ [(cfg, request)]\<rparr>)" uc]
      inv1 i by simp
  have w_s1: "store_log (snd (snd s1)) = store_log w @ [Put uc]"
    "store_faults (snd (snd s1)) = drop 1 (store_faults w)"
    by (simp_all add: s1_def mayRender_world w_s0 w1_def)
  have w_s2: "store_log (snd (snd s2)) = store_log w @ [Put uc]"
    "store_faults (snd (snd s2)) = drop 1 (store_faults w)"
    by (simp_all add: s2_def mayRender_world w_s1)
  have ok2: "nextStoreOk (snd (snd s2)) = storeOkAt 1 w"
    by (simp add: nextStoreOk_def storeOkAt_def w_s2)
  have "?P uc'"
    by simp
  from sendCatch_outcome [where P = ?P and start = snap, OF em_def uc'_def inv2 i this]
  have out: "store_log w' = store_log w @ [Put uc, Put uc']"
    and res: "if storeOkAt 1 w
     then r = Inr () \<and> st' = publish ?i uc' snap
     else (\<exists>m rest. drop 1 (store_faults w) = Some m # rest \<and> r = Inl (DOMException m))
        \<and> (st' = publish ?i uc snap \<or> st' = publish ?i uc' snap)"
    unfolding run by (auto simp: w_s2 ok2 split: if_splits)
  have "conv_messages uc = conv_messages conversation @ [um]"
    "conv_messages uc' = conv_messages conversation @ [um, em]"
    "msg_role um = User" "msg_content um = content" "msg_role em = Assistant"
    "msg_content em = ''Error: ''
      @ (if instanceofError e then error_message e else ''Failed to get response'')"
    by (simp_all add: uc_def uc'_def um_def em_def)
  with out res show ?thesis
    by blast
qed




subsection \<open>Failures of the Store\<close>

text \<open>A failure of the delete, of the first write of a send, and of the write that follows
  a failed Gateway call reaches the caller of the workflow as it is.\<close>

lemma handleDeleteConversation_store_failure:
  assumes "store_faults w = Some m # rest"
  shows "fst (handleDeleteConversation snap i (st, w)) = Inl (DOMException m)"
    and "fst (snd (handleDeleteConversation snap i (st, w))) = st"
  using assms by (simp_all add: handleDeleteConversation_def deleteConversation_def)

lemma handleSendMessage_first_write_fails:
  assumes "getCurrentConversation snap = Some conversation"
    and "apiConfig snap = Some cfg"
    and "\<not> isl (attachmentData attachments)"
    and "store_faults w = Some m # rest"
  shows "fst (handleSendMessage snap content attachments (st, w)) = Inl (DOMException m)"
    and "fst (snd (handleSendMessage snap content attachments (st, w))) = st"
proof -
  from assms(3) obtain stored where "attachmentData attachments = Inr stored"
    by (cases "attachmentData attachments") auto
  with assms show "fst (handleSendMessage snap content attachments (st, w)) = Inl (DOMException m)"
    and "fst (snd (handleSendMessage snap content attachments (st, w))) = st"
    by (simp_all add: handleSendMessage_def Let_def split_beta saveConversation_fst)
qed

lemma handleSendMessage_catch_write_fails:
  assumes "getCurrentConversation snap = Some conversation"
    and "apiConfig snap = Some cfg"
    and "handleSendMessage snap content attachments (snap, w) = (r, st', w')"
    and "gateway_log w' = gateway_log w @ [(cfg, req)]"
    and "chatReply w cfg req = Inl e"
    and "drop 1 (store_faults w) = Some m # rest"
  shows "r = Inl (DOMException m)"
proof -
  from assms(6) have "\<not> storeOkAt 1 w"
    by (simp add: storeOkAt_def)
  with handleSendMessage_gateway_failure [OF assms(1-5)] assms(6) show ?thesis
    by auto
qed

text \<open>
  Claim C5. A failure of the Store should reach the caller of every workflow, as the three
  operations above have it. Two writes do otherwise. The write after a successful Gateway
  call is inside the \<^verbatim>\<open>try\<close> block: when it fails, the send resolves, the failure has
  become the assistant message \<^verbatim>\<open>Error: quota\<close>, and a third write has been made. And
  new-conversation does not await its write: when it fails, the conversation is added and
  selected all the same, nothing is stored, and the rejection is left unhandled.
\<close>

theorem store_failure_absorbed:
  "fst (handleSendMessage (exampleState []) ''hi'' None
      (exampleState [], exampleWorld (\<lambda>c r. Inr ''reply'') [None, Some ''quota'']))
     = Inr ()
   \<and> map (\<lambda>c. map msg_content (conv_messages c))
       (conversations (fst (snd (handleSendMessage (exampleState []) ''hi'' None
          (exampleState [], exampleWorld (\<lambda>c r. Inr ''reply'') [None, Some ''quota''])))))
     = [[''hi'', ''Error: quota'']]
   \<and> length (store_log (snd (snd (handleSendMessage (exampleState []) ''hi'' None
          (exampleState [], exampleWorld (\<lambda>c r. Inr ''reply'') [None, Some ''quota'']))))) = 3
   \<and> map conv_id (conversations (fst (handleNewConversation (exampleState [])
          (exampleState [], exampleWorld (\<lambda>c r. Inr ''reply'') [Some ''quota'']))))
     = [''uuid-'', ''c1'']
   \<and> currentConversationId (fst (handleNewConversation (exampleState [])
          (exampleState [], exampleWorld (\<lambda>c r. Inr ''reply'') [Some ''quota''])))
     = Some ''uuid-''
   \<and> unhandled (snd (handleNewConversation (exampleState [])
          (exampleState [], exampleWorld (\<lambda>c r. Inr ''reply'') [Some ''quota''])))
     = [DOMException ''quota'']
   \<and> db (snd (handleNewConversation (exampleState [])
          (exampleState [], exampleWorld (\<lambda>c r. Inr ''reply'') [Some ''quota'']))) ''uuid-''
     = None"
  by (simp add: send_defs example_defs handleNewConversation_def randomUUID_def)


section \<open>Properties of the Gateway: the response dialects\<close>

lemma atPath_undefined [simp]: "atPath JUndefined ks = JUndefined"
  by (induction ks) (simp_all add: optProp_def)

lemma falsy_optProp: "\<not> truthy v \<Longrightarrow> optProp v k = JUndefined"
  by (cases v) (simp_all add: optProp_def)

lemma optProp_propOf: "\<not> nullish v \<Longrightarrow> optProp v k = propOf v k"
  by (simp add: optProp_def)

lemma truthy_not_nullish: "truthy v \<Longrightarrow> \<not> nullish v"
  by (cases v) simp_all

lemma chat_guard:
  assumes "\<not> nullish data"
  shows "(truthy (propOf data ''choices'')
          \<and> truthy (optProp (optProp (propOf (propOf data ''choices'') ''0'') ''message'') ''content''))
       = truthy (atPath data [''choices'', ''0'', ''message'', ''content''])"
    and "truthy (propOf data ''choices'') \<Longrightarrow>
       optProp (optProp (propOf (propOf data ''choices'') ''0'') ''message'') ''content''
       = atPath data [''choices'', ''0'', ''message'', ''content'']"
    and "optProp (propOf data ''message'') ''content'' = atPath data [''message'', ''content'']"
proof -
  let ?c = "propOf data ''choices''"
  show "optProp (propOf data ''message'') ''content'' = atPath data [''message'', ''content'']"
    using assms by (simp add: optProp_propOf)
  show eq: "optProp (optProp (propOf ?c ''0'') ''message'') ''content''
       = atPath data [''choices'', ''0'', ''message'', ''content'']" if "truthy ?c"
    using assms truthy_not_nullish [OF that] by (simp add: optProp_propOf)
  show "(truthy ?c \<and> truthy (optProp (optProp (propOf ?c ''0'') ''message'') ''content''))
       = truthy (atPath data [''choices'', ''0'', ''message'', ''content''])"
  proof (cases "truthy ?c")
    case True
    with eq show ?thesis
      by simp
  next
    case False
    then have "atPath data [''choices'', ''0'', ''message'', ''content''] = JUndefined"
      using assms by (simp add: optProp_propOf falsy_optProp)
    with False show ?thesis
      by simp
  qed
qed

text \<open>
  Claim C6. On a response that is not 2xx, \<^verbatim>\<open>sendChatMessage\<close> fails with a Request
  Failure whose message carries the status text and the body. On a 2xx response whose body
  is a JSON value other than \<^verbatim>\<open>null\<close>, it returns the value at
  \<^verbatim>\<open>choices[0].message.content\<close> when that value is truthy (present, and not the empty
  text), otherwise the value at \<^verbatim>\<open>message.content\<close> when that one is truthy, and otherwise
  fails with the Unexpected-Format error; so on such a response it fails exactly when
  neither path holds a truthy value.
\<close>

theorem sendChatMessage_dialects:
  assumes "fetch \<lparr>url = normalizeHostname (hostname config) @ ''/v1/chat/completions'',
                  http_method = ''POST'', headers = getHeaders (apiKey config),
                  body = Some (request\<lparr>req_stream := Some False\<rparr>)\<rparr> = Inr resp"
    and "a = atPath data [''choices'', ''0'', ''message'', ''content'']"
    and "b = atPath data [''message'', ''content'']"
  shows "(\<not> ok resp \<and> body_text resp = Inr errorText \<longrightarrow>
            sendChatMessage fetch config request
            = Inl (Error (''API request failed: '' @ statusText resp @ '' - '' @ errorText)))
       \<and> (ok resp \<and> body_json resp = Inr data \<and> \<not> nullish data \<longrightarrow>
            sendChatMessage fetch config request
            = (if truthy a then Inr a
               else if truthy b then Inr b
               else Inl (Error ''Unexpected response format''))
          \<and> (isl (sendChatMessage fetch config request) \<longleftrightarrow> \<not> truthy a \<and> \<not> truthy b))"
proof -
  have "sendChatMessage fetch config request
      = Inl (Error (''API request failed: '' @ statusText resp @ '' - '' @ errorText))"
    if "\<not> ok resp \<and> body_text resp = Inr errorText"
    using that assms(1) by (simp add: sendChatMessage_def)
  moreover have "sendChatMessage fetch config request
      = (if truthy a then Inr a
         else if truthy b then Inr b
         else Inl (Error ''Unexpected response format''))"
    if "ok resp \<and> body_json resp = Inr data \<and> \<not> nullish data"
  proof -
    from that have d: "\<not> nullish data"
      by simp
    show ?thesis
    proof (cases "truthy a")
      case True
      then have "truthy (propOf data ''choices'')"
        "optProp (optProp (propOf (propOf data ''choices'') ''0'') ''message'') ''content'' = a"
        using chat_guard(1,2) [OF d] unfolding assms(2) by blast+
      with True that assms(1) show ?thesis
        by (simp add: sendChatMessage_def getProp_def Let_def)
    next
      case False
      then have "\<not> (truthy (propOf data ''choices'') \<and> truthy
        (optProp (optProp (propOf (propOf data ''choices'') ''0'') ''message'') ''content''))"
        using chat_guard(1) [OF d] unfolding assms(2) by simp
      with False that assms(1) chat_guard(3) [OF d] show ?thesis
        by (auto simp: sendChatMessage_def getProp_def Let_def assms(3))
    qed
  qed
  ultimately show ?thesis
    by auto
qed

lemmas gateway_defs = sendChatMessage_def fetchModels_def getProp_def optProp_def orElse_def
  modelOfData_def modelOfModels_def okResponse_def openaiBody_def flatBody_def notFound_def
  Let_def

theorem sendChatMessage_dialects_witness:
  "sendChatMessage (\<lambda>q. Inr (okResponse (openaiBody ''hello''))) exampleConfig exampleRequest
     = Inr (JStr ''hello'')
   \<and> sendChatMessage (\<lambda>q. Inr (okResponse (flatBody ''hello''))) exampleConfig exampleRequest
     = Inr (JStr ''hello'')
   \<and> sendChatMessage (\<lambda>q. Inr (okResponse (JObj [(''result'', JStr ''hello'')])))
       exampleConfig exampleRequest
     = Inl (Error ''Unexpected response format'')
   \<and> sendChatMessage (\<lambda>q. Inr notFound) exampleConfig exampleRequest
     = Inl (Error ''API request failed: Not Found - no such model'')"
proof -
  have ok: "ok (okResponse d) \<and> body_json (okResponse d) = Inr d" for d
    by (simp add: okResponse_def)
  have nf: "\<not> ok notFound \<and> body_text notFound = Inr ''no such model''"
    "statusText notFound = ''Not Found''"
    by (simp_all add: notFound_def)
  have paths:
    "atPath (openaiBody ''hello'') [''choices'', ''0'', ''message'', ''content''] = JStr ''hello''"
    "atPath (flatBody ''hello'') [''choices'', ''0'', ''message'', ''content''] = JUndefined"
    "atPath (flatBody ''hello'') [''message'', ''content''] = JStr ''hello''"
    "atPath (JObj [(''result'', JStr ''hello'')]) [''choices'', ''0'', ''message'', ''content'']
      = JUndefined"
    "atPath (JObj [(''result'', JStr ''hello'')]) [''message'', ''content''] = JUndefined"
    by (simp_all add: openaiBody_def flatBody_def optProp_def)
  have nn: "\<not> nullish (openaiBody ''hello'')" "\<not> nullish (flatBody ''hello'')"
    by (simp_all add: openaiBody_def flatBody_def)
  have f: "(\<lambda>q. Inr r) x = (Inr r :: thrown + response)" for r and x :: httpRequest
    by simp
  show ?thesis
    using sendChatMessage_dialects [where data = "openaiBody ''hello''" and config = exampleConfig
          and request = exampleRequest, OF f refl refl]
      sendChatMessage_dialects [where data = "flatBody ''hello''" and config = exampleConfig
          and request = exampleRequest, OF f refl refl]
      sendChatMessage_dialects [where data = "JObj [(''result'', JStr ''hello'')]"
          and config = exampleConfig and request = exampleRequest, OF f refl refl]
      sendChatMessage_dialects [where errorText = "''no such model''" and config = exampleConfig
          and request = exampleRequest, OF f refl refl]
    unfolding paths by (simp add: ok nf nn)
qed

text \<open>
  A 2xx response of the first dialect does not always return its content text: the body
  \<^verbatim>\<open>{"choices": [{"message": {"content": ""}}]}\<close> has the shape, its content is the empty
  text, and the outcome is the Unexpected-Format error.
\<close>

theorem empty_content_is_unexpected_format:
  "spec_chatContent (openaiBody []) = Some []
   \<and> sendChatMessage (\<lambda>q. Inr (okResponse (openaiBody []))) exampleConfig exampleRequest
     = Inl (Error ''Unexpected response format'')"
  by (simp add: spec_chatContent_def gateway_defs)

lemma mapThrowing_total:
  assumes "\<And>x. x \<in> set xs \<Longrightarrow> f x = Inr (g x)"
  shows "mapThrowing f xs = Inr (map g xs)"
  using assms by (induction xs) simp_all

lemma isArray_iff: "isArray v \<longleftrightarrow> (\<exists>ms. v = JArr ms)"
  by (cases v) simp_all

text \<open>
  Claim C7. On a 2xx response whose body is a JSON value other than \<^verbatim>\<open>null\<close>,
  \<^verbatim>\<open>fetchModels\<close> returns: when \<^verbatim>\<open>data\<close> is an array (of elements other than \<^verbatim>\<open>null\<close>), the
  array mapped elementwise to \<^verbatim>\<open>{id, name: name || id}\<close>; when it is not and \<^verbatim>\<open>models\<close> is
  such an array, the array mapped elementwise to \<^verbatim>\<open>{id: model || name, name}\<close>; and the
  empty sequence when neither is an array. The fallback is taken for every falsy value:
  an absent, a \<^verbatim>\<open>null\<close> and an empty name alike.
\<close>

theorem fetchModels_dialects:
  assumes "fetch \<lparr>url = normalizeHostname (hostname config) @ ''/v1/models'',
                  http_method = ''GET'', headers = getHeaders (apiKey config),
                  body = None\<rparr> = Inr resp"
    and "ok resp" and "body_json resp = Inr data" and "\<not> nullish data"
  shows "(propOf data ''data'' = JArr ms \<and> list_all (\<lambda>m. \<not> nullish m) ms \<longrightarrow>
            fetchModels fetch config
            = Inr (map (\<lambda>m. \<lparr>model_id = propOf m ''id'',
                              model_name = (if truthy (propOf m ''name'') then propOf m ''name''
                                            else propOf m ''id'')\<rparr>) ms))
       \<and> (\<not> isArray (propOf data ''data'') \<and> propOf data ''models'' = JArr ms
            \<and> list_all (\<lambda>m. \<not> nullish m) ms \<longrightarrow>
            fetchModels fetch config
            = Inr (map (\<lambda>m. \<lparr>model_id = (if truthy (propOf m ''model'') then propOf m ''model''
                                          else propOf m ''name''),
                              model_name = propOf m ''name''\<rparr>) ms))
       \<and> (\<not> isArray (propOf data ''data'') \<and> \<not> isArray (propOf data ''models'') \<longrightarrow>
            fetchModels fetch config = Inr [])"
proof -
  have start: "fetchModels fetch config =
     (let d = propOf data ''data''
      in if truthy d \<and> isArray d
         then (case d of JArr ms \<Rightarrow> mapThrowing modelOfData ms | _ \<Rightarrow> Inr [])
         else let d = propOf data ''models''
              in if truthy d \<and> isArray d
                 then (case d of JArr ms \<Rightarrow> mapThrowing modelOfModels ms | _ \<Rightarrow> Inr [])
                 else Inr [])"
    using assms by (simp add: fetchModels_def getProp_def Let_def)
  have "fetchModels fetch config
      = Inr (map (\<lambda>m. \<lparr>model_id = propOf m ''id'',
                        model_name = (if truthy (propOf m ''name'') then propOf m ''name''
                                      else propOf m ''id'')\<rparr>) ms)"
    if "propOf data ''data'' = JArr ms \<and> list_all (\<lambda>m. \<not> nullish m) ms"
  proof -
    have "mapThrowing modelOfData ms
      = Inr (map (\<lambda>m. \<lparr>model_id = propOf m ''id'',
                        model_name = (if truthy (propOf m ''name'') then propOf m ''name''
                                      else propOf m ''id'')\<rparr>) ms)"
      using that
      by (intro mapThrowing_total) (simp add: modelOfData_def getProp_def orElse_def list_all_iff)
    with that show ?thesis
      unfolding start by simp
  qed
  moreover have "fetchModels fetch config
      = Inr (map (\<lambda>m. \<lparr>model_id = (if truthy (propOf m ''model'') then propOf m ''model''
                                    else propOf m ''name''),
                        model_name = propOf m ''name''\<rparr>) ms)"
    if "\<not> isArray (propOf data ''data'') \<and> propOf data ''models'' = JArr ms
        \<and> list_all (\<lambda>m. \<not> nullish m) ms"
  proof -
    have "mapThrowing modelOfModels ms
      = Inr (map (\<lambda>m. \<lparr>model_id = (if truthy (propOf m ''model'') then propOf m ''model''
                                    else propOf m ''name''),
                        model_name = propOf m ''name''\<rparr>) ms)"
      using that
      by (intro mapThrowing_total) (simp add: modelOfModels_def getProp_def orElse_def list_all_iff)
    with that show ?thesis
      unfolding start by simp
  qed
  moreover have "fetchModels fetch config = Inr []"
    if "\<not> isArray (propOf data ''data'') \<and> \<not> isArray (propOf data ''models'')"
    using that unfolding start by simp
  ultimately show ?thesis
    by blast
qed

theorem fetchModels_dialects_witness:
  "fetchModels (\<lambda>q. Inr (okResponse (dataBody [[(''id'', JStr ''m1'')]]))) exampleConfig
     = Inr [\<lparr>model_id = JStr ''m1'', model_name = JStr ''m1''\<rparr>]
   \<and> fetchModels (\<lambda>q. Inr (okResponse (modelsBody [[(''name'', JStr ''n1''), (''model'', JStr ''m1'')]])))
       exampleConfig
     = Inr [\<lparr>model_id = JStr ''m1'', model_name = JStr ''n1''\<rparr>]
   \<and> fetchModels (\<lambda>q. Inr (okResponse (JObj [(''items'', JArr [])]))) exampleConfig = Inr []"
proof -
  have f: "(\<lambda>q. Inr r) x = (Inr r :: thrown + response)" for r and x :: httpRequest
    by simp
  have ok: "ok (okResponse d)" "body_json (okResponse d) = Inr d" for d
    by (simp_all add: okResponse_def)
  have nn: "\<not> nullish (dataBody ms)" "\<not> nullish (modelsBody ms)"
    "\<not> nullish (JObj kvs)" for ms kvs
    by (simp_all add: dataBody_def modelsBody_def)
  show ?thesis
    using fetchModels_dialects [where data = "dataBody [[(''id'', JStr ''m1'')]]"
          and config = exampleConfig and ms = "[JObj [(''id'', JStr ''m1'')]]",
          OF f ok nn(1)]
      fetchModels_dialects [where
          data = "modelsBody [[(''name'', JStr ''n1''), (''model'', JStr ''m1'')]]"
          and config = exampleConfig
          and ms = "[JObj [(''name'', JStr ''n1''), (''model'', JStr ''m1'')]]",
          OF f ok nn(2)]
      fetchModels_dialects [where data = "JObj [(''items'', JArr [])]"
          and config = exampleConfig, OF f ok nn(3)]
    by (simp add: dataBody_def modelsBody_def)
qed

text \<open>
  The mapping is not \<^verbatim>\<open>name ?? id\<close>: for the entry \<^verbatim>\<open>{"id": "m1", "name": ""}\<close> the code
  gives the name \<^verbatim>\<open>m1\<close>, where \<^verbatim>\<open>??\<close> keeps the empty name. And not every other shape
  gives the empty sequence: on the body \<^verbatim>\<open>null\<close> the call fails with a \<^verbatim>\<open>TypeError\<close>.
\<close>

theorem empty_name_and_null_body:
  "fetchModels (\<lambda>q. Inr (okResponse (dataBody [[(''id'', JStr ''m1''), (''name'', JStr [])]])))
       exampleConfig
     = Inr [\<lparr>model_id = JStr ''m1'', model_name = JStr ''m1''\<rparr>]
   \<and> spec_listModels (dataBody [[(''id'', JStr ''m1''), (''name'', JStr [])]])
     = [\<lparr>model_id = JStr ''m1'', model_name = JStr []\<rparr>]
   \<and> spec_listModels JNull = []
   \<and> fetchModels (\<lambda>q. Inr (okResponse JNull)) exampleConfig
     = Inl (TypeError (''Cannot read properties of null (reading '' @ [CHR 0x27] @ ''data''
              @ [CHR 0x27] @ '')''))"
  by (simp add: spec_listModels_def coalesce_def dataBody_def gateway_defs)

end
